theory Spec2Isabelle
  imports Complex_Main "HOL-Library.Log_Nat"
begin

section \<open>MicroMart backend: cart, order and payment handlers of server.py\<close>

text \<open>
  The handlers of \<^verbatim>\<open>server.py\<close> are modelled as functions on an explicit database
  state. Each handler runs alone from its first read to its last write (the interleaving
  of concurrent requests is outside this model). What the handlers take from their
  environment is an argument of the model:
  \<^item> the authenticated user (\<^verbatim>\<open>Depends(get_current_user)\<close>) is the user id \<open>uid\<close>;
  \<^item> \<^verbatim>\<open>uuid.uuid4()\<close> is the argument \<open>new_id\<close> (a generator \<open>gen\<close> where several ids
    are drawn);
  \<^item> \<^verbatim>\<open>datetime.now(timezone.utc)\<close> is the argument \<open>now\<close>.
  Python's \<^verbatim>\<open>int\<close> is \<open>int\<close>, and its \<^verbatim>\<open>float\<close> is the type \<open>pyfloat\<close> of IEEE 754
  doubles below. An exception that a handler raises is the left summand of its result.
  The result of a handler is the value it returns: how the framework renders that value
  as a JSON response (it refuses an infinity or NaN) is not part of the model.
\<close>

subsection \<open>Python floats\<close>

text \<open>
  A \<^verbatim>\<open>float\<close> is a binary64 value: a finite double (the real number it denotes), an
  infinity or NaN. The sign of a zero is not represented: no handler divides by a float
  or prints one, and \<^verbatim>\<open>==\<close> does not tell the two zeros apart.

  \<open>round64\<close> rounds a real to the nearest double, ties to even: the unit in the last
  place is \<open>2 powi q\<close>, where \<open>q\<close> is 52 below the binary exponent of the number and
  never below that of the subnormal doubles, and a result of magnitude \<open>2 ^ 1024\<close> or
  more is an infinity.
\<close>

datatype pyfloat = Fin real | PInf | NInf | NaN

definition exponent :: "real \<Rightarrow> int" where
  "exponent x =
     (if 1 \<le> \<bar>x\<bar> then bitlen \<lfloor>\<bar>x\<bar>\<rfloor> - 1 else - bitlen (\<lceil>1 / \<bar>x\<bar>\<rceil> - 1))"

definition round_half_even :: "real \<Rightarrow> int" where
  "round_half_even r =
     (let f = \<lfloor>r\<rfloor>
      in if r - of_int f < 1 / 2 then f
         else if 1 / 2 < r - of_int f then f + 1
         else if even f then f else f + 1)"

definition round64 :: "real \<Rightarrow> pyfloat" where
  "round64 x =
     (if x = 0 then Fin 0
      else
        (let q = max (exponent x) (- 1022) - 52;
             y = of_int (round_half_even (x / 2 powi q)) * 2 powi q
         in if 2 ^ 1024 \<le> \<bar>y\<bar> then (if 0 < x then PInf else NInf) else Fin y))"

text \<open>Addition and multiplication of two floats: neither raises.\<close>

fun float_add :: "pyfloat \<Rightarrow> pyfloat \<Rightarrow> pyfloat" where
  "float_add (Fin x) (Fin y) = round64 (x + y)"
| "float_add NaN b = NaN"
| "float_add a NaN = NaN"
| "float_add PInf NInf = NaN"
| "float_add NInf PInf = NaN"
| "float_add PInf b = PInf"
| "float_add a PInf = PInf"
| "float_add NInf b = NInf"
| "float_add a NInf = NInf"

definition float_times_inf :: "real \<Rightarrow> pyfloat \<Rightarrow> pyfloat \<Rightarrow> pyfloat" where
  "float_times_inf x same other = (if x = 0 then NaN else if 0 < x then same else other)"

fun float_mul :: "pyfloat \<Rightarrow> pyfloat \<Rightarrow> pyfloat" where
  "float_mul (Fin x) (Fin y) = round64 (x * y)"
| "float_mul NaN b = NaN"
| "float_mul a NaN = NaN"
| "float_mul (Fin x) PInf = float_times_inf x PInf NInf"
| "float_mul (Fin x) NInf = float_times_inf x NInf PInf"
| "float_mul PInf (Fin y) = float_times_inf y PInf NInf"
| "float_mul NInf (Fin y) = float_times_inf y NInf PInf"
| "float_mul PInf PInf = PInf"
| "float_mul PInf NInf = NInf"
| "float_mul NInf PInf = NInf"
| "float_mul NInf NInf = PInf"

text \<open>\<^verbatim>\<open>a == b\<close> on floats: NaN is equal to nothing, itself included.\<close>

fun float_eq :: "pyfloat \<Rightarrow> pyfloat \<Rightarrow> bool" where
  "float_eq (Fin x) (Fin y) = (x = y)"
| "float_eq PInf PInf = True"
| "float_eq NInf NInf = True"
| "float_eq a b = False"

text \<open>
  The exceptions of the model. An \<^verbatim>\<open>HTTPException\<close> is the response the handler chose;
  an \<^verbatim>\<open>OverflowError\<close> is caught by no handler and reaches the client as HTTP 500.
\<close>

datatype py_exception = HTTPException (status_code: nat) (detail: string) | OverflowError

text \<open>
  \<^verbatim>\<open>float(n)\<close> of an \<^verbatim>\<open>int\<close>, as the multiplication of a float by an int makes it: the
  nearest double, and \<^verbatim>\<open>OverflowError\<close> (int too large to convert to float) when that
  is no finite double.
\<close>

definition float_of_int :: "int \<Rightarrow> py_exception + pyfloat" where
  "float_of_int n = (case round64 (of_int n) of Fin y \<Rightarrow> Inr (Fin y) | _ \<Rightarrow> Inl OverflowError)"

definition float_mul_int :: "pyfloat \<Rightarrow> int \<Rightarrow> py_exception + pyfloat" where
  "float_mul_int a n =
     (case float_of_int n of Inl e \<Rightarrow> Inl e | Inr b \<Rightarrow> Inr (float_mul a b))"

subsection \<open>Pydantic models\<close>

type_synonym datetime = nat

record Product =
  p_id :: string
  p_name :: string
  p_description :: string
  p_price :: pyfloat
  p_image_url :: string
  p_category :: string
  p_stock :: int
  p_created_at :: datetime

record ProductCreate =
  pc_name :: string
  pc_description :: string
  pc_price :: pyfloat
  pc_image_url :: string
  pc_category :: string
  pc_stock :: int

record CartItem =
  ci_product_id :: string
  ci_quantity :: int
  ci_price :: pyfloat

record Cart =
  c_id :: string
  c_user_id :: string
  c_items :: "CartItem list"
  c_total :: pyfloat
  c_updated_at :: datetime

record AddToCartRequest =
  req_product_id :: string
  req_quantity :: int

record OrderItem =
  oi_product_id :: string
  oi_product_name :: string
  oi_quantity :: int
  oi_price :: pyfloat

record Order =
  o_id :: string
  o_user_id :: string
  o_items :: "OrderItem list"
  o_total :: pyfloat
  o_status :: string
  o_shipping_address :: string
  o_created_at :: datetime

record Payment =
  pay_id :: string
  pay_order_id :: string
  pay_amount :: pyfloat
  pay_status :: string
  pay_payment_method :: string
  pay_created_at :: datetime

subsection \<open>The document store\<close>

text \<open>
  A collection is the list of its documents in insertion order. The collection
  \<^verbatim>\<open>db.users\<close> is read by the authentication dependency only and is left out.
\<close>

record db =
  products :: "Product list"
  carts :: "Cart list"
  orders :: "Order list"
  payments :: "Payment list"

definition empty_db :: db where
  "empty_db = \<lparr>products = [], carts = [], orders = [], payments = []\<rparr>"

fun find_one :: "('a \<Rightarrow> bool) \<Rightarrow> 'a list \<Rightarrow> 'a option" where
  "find_one q [] = None"
| "find_one q (d # ds) = (if q d then Some d else find_one q ds)"

definition insert_one :: "'a \<Rightarrow> 'a list \<Rightarrow> 'a list" where
  "insert_one d ds = ds @ [d]"

definition insert_many :: "'a list \<Rightarrow> 'a list \<Rightarrow> 'a list" where
  "insert_many new ds = ds @ new"

fun replace_one :: "('a \<Rightarrow> bool) \<Rightarrow> 'a \<Rightarrow> bool \<Rightarrow> 'a list \<Rightarrow> 'a list" where
  "replace_one q d upsert [] = (if upsert then [d] else [])"
| "replace_one q d upsert (x # xs) =
     (if q x then d # xs else x # replace_one q d upsert xs)"

fun update_one :: "('a \<Rightarrow> bool) \<Rightarrow> ('a \<Rightarrow> 'a) \<Rightarrow> 'a list \<Rightarrow> 'a list" where
  "update_one q f [] = []"
| "update_one q f (x # xs) = (if q x then f x # xs else x # update_one q f xs)"

fun delete_one :: "('a \<Rightarrow> bool) \<Rightarrow> 'a list \<Rightarrow> 'a list" where
  "delete_one q [] = []"
| "delete_one q (x # xs) = (if q x then xs else x # delete_one q xs)"

definition count_documents :: "'a list \<Rightarrow> nat" where
  "count_documents ds = length ds"

text \<open>
  The driver encodes a document before it sends it, and raises \<^verbatim>\<open>OverflowError\<close> for
  an \<^verbatim>\<open>int\<close> outside the signed 64-bit range; floats, infinities and NaN included, are
  encoded as they are. The handlers below make this test where an integer of a request
  enters a document (the quantity in \<open>add_to_cart\<close>, the stock in \<open>create_product\<close>).
  The integers that \<open>remove_from_cart\<close> and \<open>create_order\<close> write were read from the
  store, where every integer has 64 bits.
\<close>

definition int64 :: "int \<Rightarrow> bool" where
  "int64 n \<longleftrightarrow> - (2 ^ 63) \<le> n \<and> n < 2 ^ 63"

definition encodable :: "CartItem list \<Rightarrow> bool" where
  "encodable its \<longleftrightarrow> list_all (\<lambda>item. int64 (ci_quantity item)) its"

subsection \<open>Cart service\<close>

text \<open>
  \<^verbatim>\<open>sum(item.price * item.quantity for item in cart.items)\<close>: the generator is consumed
  from the left; each product converts the quantity to a float, which may raise, and is
  added to the sum so far, which starts at 0. The sum of no items is 0. This is the
  summation of CPython up to version 3.11. From version 3.12 \<^verbatim>\<open>sum\<close> also carries a
  compensation for the rounding errors of the additions, which can change the last bit
  of a total; the lemmas below use of the sum that it is a function of the line items,
  that it raises only where a product raises, and its value where every addition is
  exact or yields an infinity or NaN, which is the same in both.
\<close>

fun py_sum :: "pyfloat \<Rightarrow> CartItem list \<Rightarrow> py_exception + pyfloat" where
  "py_sum acc [] = Inr acc"
| "py_sum acc (item # rest) =
     (case float_mul_int (ci_price item) (ci_quantity item) of
        Inl e \<Rightarrow> Inl e
      | Inr x \<Rightarrow> py_sum (float_add acc x) rest)"

definition cart_sum :: "CartItem list \<Rightarrow> py_exception + pyfloat" where
  "cart_sum its = py_sum (Fin 0) its"

text \<open>\<^verbatim>\<open>Cart(user_id=...)\<close>: the defaults of the model class.\<close>

definition new_cart :: "string \<Rightarrow> string \<Rightarrow> datetime \<Rightarrow> Cart" where
  "new_cart new_id uid now =
     \<lparr>c_id = new_id, c_user_id = uid, c_items = [], c_total = Fin 0, c_updated_at = now\<rparr>"

definition get_cart :: "string \<Rightarrow> string \<Rightarrow> datetime \<Rightarrow> db \<Rightarrow> py_exception + (Cart \<times> db)" where
  "get_cart uid new_id now d =
     (case find_one (\<lambda>c. c_user_id c = uid) (carts d) of
        None \<Rightarrow>
          (let cart = new_cart new_id uid now
           in Inr (cart, d\<lparr>carts := insert_one cart (carts d)\<rparr>))
      | Some cart_data \<Rightarrow> Inr (cart_data, d))"

text \<open>
  The search loop of \<^verbatim>\<open>add_to_cart\<close>: the position of the first line item with the
  product id, where the loop breaks.
\<close>

fun existing_item :: "string \<Rightarrow> CartItem list \<Rightarrow> nat option" where
  "existing_item pid [] = None"
| "existing_item pid (cart_item # rest) =
     (if ci_product_id cart_item = pid then Some 0
      else map_option Suc (existing_item pid rest))"

definition add_item :: "string \<Rightarrow> int \<Rightarrow> pyfloat \<Rightarrow> CartItem list \<Rightarrow> CartItem list" where
  "add_item pid qty price its =
     (case existing_item pid its of
        Some i \<Rightarrow> its[i := (its ! i)\<lparr>ci_quantity := ci_quantity (its ! i) + qty\<rparr>]
      | None \<Rightarrow> its @ [\<lparr>ci_product_id = pid, ci_quantity = qty, ci_price = price\<rparr>])"

definition add_to_cart ::
  "AddToCartRequest \<Rightarrow> string \<Rightarrow> string \<Rightarrow> datetime \<Rightarrow> db \<Rightarrow> py_exception + (string \<times> db)" where
  "add_to_cart item uid new_id now d =
     (case find_one (\<lambda>p. p_id p = req_product_id item) (products d) of
        None \<Rightarrow> Inl (HTTPException 404 ''Product not found'')
      | Some product \<Rightarrow>
          (let cart = (case find_one (\<lambda>c. c_user_id c = uid) (carts d) of
                         None \<Rightarrow> new_cart new_id uid now
                       | Some cart_data \<Rightarrow> cart_data);
               its = add_item (req_product_id item) (req_quantity item) (p_price product)
                       (c_items cart)
           in case cart_sum its of
                Inl e \<Rightarrow> Inl e
              | Inr tot \<Rightarrow>
                  (let cart' = cart\<lparr>c_items := its, c_total := tot, c_updated_at := now\<rparr>
                   in if encodable its
                      then Inr (''Item added to cart'',
                                d\<lparr>carts := replace_one (\<lambda>c. c_user_id c = uid) cart' True
                                              (carts d)\<rparr>)
                      else Inl OverflowError)))"

definition remove_from_cart ::
  "string \<Rightarrow> string \<Rightarrow> datetime \<Rightarrow> db \<Rightarrow> py_exception + (string \<times> db)" where
  "remove_from_cart product_id uid now d =
     (case find_one (\<lambda>c. c_user_id c = uid) (carts d) of
        None \<Rightarrow> Inl (HTTPException 404 ''Cart not found'')
      | Some cart \<Rightarrow>
          (let its = filter (\<lambda>item. ci_product_id item \<noteq> product_id) (c_items cart)
           in case cart_sum its of
                Inl e \<Rightarrow> Inl e
              | Inr tot \<Rightarrow>
                  (let cart' = cart\<lparr>c_items := its, c_total := tot, c_updated_at := now\<rparr>
                   in Inr (''Item removed from cart'',
                           d\<lparr>carts := replace_one (\<lambda>c. c_user_id c = uid) cart' False
                                         (carts d)\<rparr>))))"

subsection \<open>Order service\<close>

fun order_items_of :: "Product list \<Rightarrow> CartItem list \<Rightarrow> OrderItem list" where
  "order_items_of ps [] = []"
| "order_items_of ps (cart_item # rest) =
     (case find_one (\<lambda>p. p_id p = ci_product_id cart_item) ps of
        Some product \<Rightarrow>
          \<lparr>oi_product_id = ci_product_id cart_item, oi_product_name = p_name product,
           oi_quantity = ci_quantity cart_item, oi_price = ci_price cart_item\<rparr>
          # order_items_of ps rest
      | None \<Rightarrow> order_items_of ps rest)"

definition create_order ::
  "string \<Rightarrow> string \<Rightarrow> string \<Rightarrow> datetime \<Rightarrow> db \<Rightarrow> py_exception + (Order \<times> db)" where
  "create_order shipping_address uid new_id now d =
     (case find_one (\<lambda>c. c_user_id c = uid) (carts d) of
        None \<Rightarrow> Inl (HTTPException 400 ''Cart is empty'')
      | Some cart \<Rightarrow>
          if c_items cart = [] then Inl (HTTPException 400 ''Cart is empty'')
          else
            (let order = \<lparr>o_id = new_id, o_user_id = uid,
                          o_items = order_items_of (products d) (c_items cart),
                          o_total = c_total cart, o_status = ''pending'',
                          o_shipping_address = shipping_address, o_created_at = now\<rparr>
             in Inr (order,
                     d\<lparr>orders := insert_one order (orders d),
                       carts := delete_one (\<lambda>c. c_user_id c = uid) (carts d)\<rparr>)))"

subsection \<open>Payment service\<close>

definition process_payment ::
  "string \<Rightarrow> string \<Rightarrow> string \<Rightarrow> datetime \<Rightarrow> db \<Rightarrow> py_exception + (Payment \<times> db)" where
  "process_payment order_id uid new_id now d =
     (case find_one (\<lambda>ord. o_id ord = order_id \<and> o_user_id ord = uid) (orders d) of
        None \<Rightarrow> Inl (HTTPException 404 ''Order not found'')
      | Some order \<Rightarrow>
          (let payment = \<lparr>pay_id = new_id, pay_order_id = order_id, pay_amount = o_total order,
                          pay_status = ''completed'', pay_payment_method = ''mock'',
                          pay_created_at = now\<rparr>
           in Inr (payment,
                   d\<lparr>payments := insert_one payment (payments d),
                     orders := update_one (\<lambda>ord. o_id ord = order_id)
                                 (\<lambda>ord. ord\<lparr>o_status := ''paid''\<rparr>) (orders d)\<rparr>)))"

subsection \<open>Product service and the catalog seed\<close>

text \<open>\<^verbatim>\<open>Product(**data)\<close>: the fields of the request, a fresh id and the creation time.\<close>

definition product_of :: "ProductCreate \<Rightarrow> string \<Rightarrow> datetime \<Rightarrow> Product" where
  "product_of product_data new_id now =
     \<lparr>p_id = new_id, p_name = pc_name product_data,
      p_description = pc_description product_data, p_price = pc_price product_data,
      p_image_url = pc_image_url product_data, p_category = pc_category product_data,
      p_stock = pc_stock product_data, p_created_at = now\<rparr>"

definition get_product :: "string \<Rightarrow> db \<Rightarrow> py_exception + Product" where
  "get_product product_id d =
     (case find_one (\<lambda>p. p_id p = product_id) (products d) of
        None \<Rightarrow> Inl (HTTPException 404 ''Product not found'')
      | Some product \<Rightarrow> Inr product)"

definition create_product ::
  "ProductCreate \<Rightarrow> string \<Rightarrow> datetime \<Rightarrow> db \<Rightarrow> py_exception + (Product \<times> db)" where
  "create_product product_data new_id now d =
     (let product = product_of product_data new_id now
      in if int64 (p_stock product)
         then Inr (product, d\<lparr>products := insert_one product (products d)\<rparr>)
         else Inl OverflowError)"

text \<open>
  The sample products of the seed. A price written \<^verbatim>\<open>29.99\<close> in the source is the double
  nearest to that decimal.
\<close>

definition sample_products :: "ProductCreate list" where
  "sample_products =
  [\<lparr>pc_name = ''Premium Dental Care Set'',
    pc_description = ''Complete oral care solution with professional-grade toothpaste and accessories'',
    pc_price = round64 (2999 / 100),
    pc_image_url = ''https://images.unsplash.com/photo-1691096673040-1632eb4b0a9d?crop=entropy&cs=srgb&fm=jpg&ixid=M3w3NTY2NzB8MHwxfHNlYXJjaHwxfHxlY29tbWVyY2UlMjBwcm9kdWN0c3xlbnwwfHx8fDE3NTc4OTg1Mjd8MA&ixlib=rb-4.1.0&q=85'',
    pc_category = ''Health & Beauty'',
    pc_stock = 50\<rparr>,
   \<lparr>pc_name = ''Professional Toothpaste Duo'',
    pc_description = ''Twin pack of premium fluoride toothpaste for complete dental protection'',
    pc_price = round64 (1999 / 100),
    pc_image_url = ''https://images.unsplash.com/photo-1691096673789-ae6a7492fd97?crop=entropy&cs=srgb&fm=jpg&ixid=M3w3NTY2NzB8MHwxfHNlYXJjaHwyfHxlY29tbWVyY2UlMjBwcm9kdWN0c3xlbnwwfHx8fDE3NTc4OTg1Mjd8MA&ixlib=rb-4.1.0&q=85'',
    pc_category = ''Health & Beauty'',
    pc_stock = 75\<rparr>,
   \<lparr>pc_name = ''Lifestyle Essentials Bundle'',
    pc_description = ''Curated collection of daily essentials and wellness products'',
    pc_price = round64 (8999 / 100),
    pc_image_url = ''https://images.unsplash.com/photo-1691096674326-74cfe19c04cc?crop=entropy&cs=srgb&fm=jpg&ixid=M3w3NTY2NzB8MHwxfHNlYXJjaHwzfHxlY29tbWVyY2UlMjBwcm9kdWN0c3xlbnwwfHx8fDE3NTc4OTg1Mjd8MA&ixlib=rb-4.1.0&q=85'',
    pc_category = ''Lifestyle'',
    pc_stock = 30\<rparr>,
   \<lparr>pc_name = ''Complete Oral Health Kit'',
    pc_description = ''Professional dental care system with advanced whitening formula'',
    pc_price = round64 (4599 / 100),
    pc_image_url = ''https://images.unsplash.com/photo-1691096674749-29069acd529c?crop=entropy&cs=srgb&fm=jpg&ixid=M3w3NTY2NzB8MHwxfHNlYXJjaHw0fHxlY29tbWVyY2UlMjBwcm9kdWN0c3xlbnwwfHx8fDE3NTc4OTg1Mjd8MA&ixlib=rb-4.1.0&q=85'',
    pc_category = ''Health & Beauty'',
    pc_stock = 40\<rparr>,
   \<lparr>pc_name = ''Glossier Beauty Collection'',
    pc_description = ''Premium cosmetics and skincare products for modern beauty routines'',
    pc_price = round64 (125),
    pc_image_url = ''https://images.unsplash.com/photo-1629198688000-71f23e745b6e?crop=entropy&cs=srgb&fm=jpg&ixid=M3w3NDQ2NDF8MHwxfHNlYXJjaHwxfHxwcm9kdWN0c3xlbnwwfHx8fDE3NTc4OTg1MzJ8MA&ixlib=rb-4.1.0&q=85'',
    pc_category = ''Beauty'',
    pc_stock = 25\<rparr>,
   \<lparr>pc_name = ''Nike Air Performance Sneaker'',
    pc_description = ''High-performance athletic footwear with advanced cushioning technology'',
    pc_price = round64 (15999 / 100),
    pc_image_url = ''https://images.unsplash.com/photo-1542291026-7eec264c27ff?crop=entropy&cs=srgb&fm=jpg&ixid=M3w3NDQ2NDF8MHwxfHNlYXJjaHwyfHxwcm9kdWN0c3xlbnwwfHx8fDE3NTc4OTg1MzJ8MA&ixlib=rb-4.1.0&q=85'',
    pc_category = ''Fashion'',
    pc_stock = 60\<rparr>,
   \<lparr>pc_name = ''Curology Skincare System'',
    pc_description = ''Personalized skincare solution with custom formulated treatments'',
    pc_price = round64 (7999 / 100),
    pc_image_url = ''https://images.unsplash.com/photo-1571781926291-c477ebfd024b?crop=entropy&cs=srgb&fm=jpg&ixid=M3w3NDQ2NDF8MHwxfHNlYXJjaHwzfHxwcm9kdWN0c3xlbnwwfHx8fDE3NTc4OTg1MzJ8MA&ixlib=rb-4.1.0&q=85'',
    pc_category = ''Skincare'',
    pc_stock = 35\<rparr>,
   \<lparr>pc_name = ''Minimalist Bottle Collection'',
    pc_description = ''Elegant glass bottles perfect for storage and home organization'',
    pc_price = round64 (3999 / 100),
    pc_image_url = ''https://images.unsplash.com/photo-1611930022073-b7a4ba5fcccd?crop=entropy&cs=srgb&fm=jpg&ixid=M3w3NDQ2NDF8MHwxfHNlYXJjaHw0fHxwcm9kdWN0c3xlbnwwfHx8fDE3NTc4OTg1MzJ8MA&ixlib=rb-4.1.0&q=85'',
    pc_category = ''Home & Living'',
    pc_stock = 20\<rparr>]"

text \<open>\<^verbatim>\<open>str(n)\<close> for the count in the seed's message.\<close>

function str_nat :: "nat \<Rightarrow> string" where
  "str_nat n =
     (if n < 10 then [''0123456789'' ! n]
      else str_nat (n div 10) @ [''0123456789'' ! (n mod 10)])"
  by pat_completeness auto
termination
  by (relation "measure (\<lambda>n. n)") auto

declare str_nat.simps [simp del]

text \<open>
  The seed draws one id for each sample product: \<open>gen i\<close> is the id of the product at
  position \<open>i\<close>.
\<close>

definition initialize_sample_products :: "(nat \<Rightarrow> string) \<Rightarrow> datetime \<Rightarrow> db \<Rightarrow> string \<times> db" where
  "initialize_sample_products gen now d =
     (if count_documents (products d) > 0 then (''Products already initialized'', d)
      else
        (let new_products = map (\<lambda>(i, product_data). product_of product_data (gen i) now)
                              (enumerate 0 sample_products)
         in (''Initialized '' @ str_nat (length new_products) @ '' sample products'',
             d\<lparr>products := insert_many new_products (products d)\<rparr>)))"

subsection \<open>Sequences of requests\<close>

text \<open>
  The requests are the handlers that write to the four collections. The handlers that
  only read (\<^verbatim>\<open>get_products\<close>, \<^verbatim>\<open>get_product\<close>, \<^verbatim>\<open>get_orders\<close>, \<^verbatim>\<open>get_order\<close>,
  \<^verbatim>\<open>get_profile\<close>) and the two that write to \<^verbatim>\<open>db.users\<close> leave them as they are.
  A request that raises leaves the database as it was: every handler raises before
  its first write.
\<close>

datatype request =
    GetCart string string datetime
  | AddToCart AddToCartRequest string string datetime
  | RemoveFromCart string string datetime
  | CreateOrder string string string datetime
  | ProcessPayment string string string datetime
  | CreateProduct ProductCreate string datetime
  | InitProducts "nat \<Rightarrow> string" datetime

definition db_after :: "db \<Rightarrow> py_exception + ('a \<times> db) \<Rightarrow> db" where
  "db_after d r = (case r of Inl e \<Rightarrow> d | Inr (x, d') \<Rightarrow> d')"

fun handle :: "db \<Rightarrow> request \<Rightarrow> db" where
  "handle d (GetCart uid new_id now) = db_after d (get_cart uid new_id now d)"
| "handle d (AddToCart item uid new_id now) = db_after d (add_to_cart item uid new_id now d)"
| "handle d (RemoveFromCart product_id uid now) = db_after d (remove_from_cart product_id uid now d)"
| "handle d (CreateOrder address uid new_id now) = db_after d (create_order address uid new_id now d)"
| "handle d (ProcessPayment order_id uid new_id now) =
     db_after d (process_payment order_id uid new_id now d)"
| "handle d (CreateProduct product_data new_id now) =
     db_after d (create_product product_data new_id now d)"
| "handle d (InitProducts gen now) = snd (initialize_sample_products gen now d)"

definition serve :: "db \<Rightarrow> request list \<Rightarrow> db" where
  "serve d rs = foldl handle d rs"

subsection \<open>Named parts of the handlers\<close>

text \<open>
  The documents that the handlers build, named so that the lemmas below can speak of
  them: each is the expression of the handler's body, unchanged.
\<close>

definition cart_or_new :: "string \<Rightarrow> string \<Rightarrow> datetime \<Rightarrow> db \<Rightarrow> Cart" where
  "cart_or_new uid new_id now d =
     (case find_one (\<lambda>c. c_user_id c = uid) (carts d) of
        None \<Rightarrow> new_cart new_id uid now
      | Some cart_data \<Rightarrow> cart_data)"

definition added_items :: "AddToCartRequest \<Rightarrow> pyfloat \<Rightarrow> Cart \<Rightarrow> CartItem list" where
  "added_items item price cart =
     add_item (req_product_id item) (req_quantity item) price (c_items cart)"

definition added_cart :: "AddToCartRequest \<Rightarrow> pyfloat \<Rightarrow> pyfloat \<Rightarrow> datetime \<Rightarrow> Cart \<Rightarrow> Cart" where
  "added_cart item price tot now cart =
     cart\<lparr>c_items := added_items item price cart, c_total := tot, c_updated_at := now\<rparr>"

definition removed_items :: "string \<Rightarrow> Cart \<Rightarrow> CartItem list" where
  "removed_items product_id cart =
     filter (\<lambda>item. ci_product_id item \<noteq> product_id) (c_items cart)"

definition removed_cart :: "string \<Rightarrow> pyfloat \<Rightarrow> datetime \<Rightarrow> Cart \<Rightarrow> Cart" where
  "removed_cart product_id tot now cart =
     cart\<lparr>c_items := removed_items product_id cart, c_total := tot, c_updated_at := now\<rparr>"

definition order_of :: "string \<Rightarrow> string \<Rightarrow> string \<Rightarrow> datetime \<Rightarrow> Product list \<Rightarrow> Cart \<Rightarrow> Order" where
  "order_of shipping_address uid new_id now ps cart =
     \<lparr>o_id = new_id, o_user_id = uid, o_items = order_items_of ps (c_items cart),
      o_total = c_total cart, o_status = ''pending'',
      o_shipping_address = shipping_address, o_created_at = now\<rparr>"

definition payment_of :: "string \<Rightarrow> string \<Rightarrow> datetime \<Rightarrow> Order \<Rightarrow> Payment" where
  "payment_of order_id new_id now ord =
     \<lparr>pay_id = new_id, pay_order_id = order_id, pay_amount = o_total ord,
      pay_status = ''completed'', pay_payment_method = ''mock'', pay_created_at = now\<rparr>"

definition mark_paid :: "Order \<Rightarrow> Order" where
  "mark_paid ord = ord\<lparr>o_status := ''paid''\<rparr>"

subsection \<open>Example data\<close>

text \<open>
  A catalog of two products and no cart, the cart of user \<open>u1\<close>, and the requests of the
  example of the specification: two pens at 10.00 and one ink at 5.00. The prices and
  totals of the examples are small integers, which are doubles.
\<close>

definition pen :: "pyfloat \<Rightarrow> Product" where
  "pen price =
     \<lparr>p_id = ''P1'', p_name = ''Pen'', p_description = ''Blue pen'', p_price = price,
      p_image_url = ''pen.png'', p_category = ''Office'', p_stock = 5, p_created_at = 0\<rparr>"

definition ink :: Product where
  "ink =
     \<lparr>p_id = ''P2'', p_name = ''Ink'', p_description = ''Black ink'', p_price = Fin 5,
      p_image_url = ''ink.png'', p_category = ''Office'', p_stock = 3, p_created_at = 0\<rparr>"

definition shop :: db where
  "shop = \<lparr>products = [pen (Fin 10), ink], carts = [], orders = [], payments = []\<rparr>"

definition shop_cart :: "CartItem list \<Rightarrow> pyfloat \<Rightarrow> datetime \<Rightarrow> Cart" where
  "shop_cart its tot now =
     \<lparr>c_id = ''c1'', c_user_id = ''u1'', c_items = its, c_total = tot, c_updated_at = now\<rparr>"

definition line :: "string \<Rightarrow> int \<Rightarrow> pyfloat \<Rightarrow> CartItem" where
  "line pid qty price = \<lparr>ci_product_id = pid, ci_quantity = qty, ci_price = price\<rparr>"

definition add_req :: "string \<Rightarrow> int \<Rightarrow> AddToCartRequest" where
  "add_req pid qty = \<lparr>req_product_id = pid, req_quantity = qty\<rparr>"

definition two_adds :: "request list" where
  "two_adds = [AddToCart (add_req ''P1'' 2) ''u1'' ''c1'' 1, AddToCart (add_req ''P2'' 1) ''u1'' ''c2'' 2]"

definition pen_data :: ProductCreate where
  "pen_data =
     \<lparr>pc_name = ''Pen'', pc_description = ''Blue pen'', pc_price = Fin 10,
      pc_image_url = ''pen.png'', pc_category = ''Office'', pc_stock = 5\<rparr>"

definition first_requests :: "request list" where
  "first_requests =
     [CreateProduct pen_data ''P1'' 0, AddToCart (add_req ''P1'' 2) ''u1'' ''c1'' 1]"

definition oline :: "string \<Rightarrow> string \<Rightarrow> int \<Rightarrow> pyfloat \<Rightarrow> OrderItem" where
  "oline pid name qty price =
     \<lparr>oi_product_id = pid, oi_product_name = name, oi_quantity = qty, oi_price = price\<rparr>"

definition shop_order :: "OrderItem list \<Rightarrow> pyfloat \<Rightarrow> string \<Rightarrow> Order" where
  "shop_order its tot st =
     \<lparr>o_id = ''o1'', o_user_id = ''u1'', o_items = its, o_total = tot, o_status = st,
      o_shipping_address = ''123 Main St'', o_created_at = 3\<rparr>"

definition shop_payment :: "string \<Rightarrow> datetime \<Rightarrow> Payment" where
  "shop_payment new_id now =
     \<lparr>pay_id = new_id, pay_order_id = ''o1'', pay_amount = Fin 25, pay_status = ''completed'',
      pay_payment_method = ''mock'', pay_created_at = now\<rparr>"

definition paid_shop :: db where
  "paid_shop =
     shop\<lparr>orders := [shop_order [oline ''P1'' ''Pen'' 2 (Fin 10), oline ''P2'' ''Ink'' 1 (Fin 5)]
                         (Fin 25) ''paid''],
          payments := [shop_payment ''pay1'' 4]\<rparr>"

text \<open>
  Two products at the price \<open>2 ^ 1023\<close>, a double that is written 8.98846567431158e307,
  and the requests that put two of the first and minus two of the second in a cart.
\<close>

definition huge :: pyfloat where
  "huge = Fin (2 ^ 1023)"

definition huge_data :: ProductCreate where
  "huge_data =
     \<lparr>pc_name = ''Vault'', pc_description = ''Steel vault'', pc_price = huge,
      pc_image_url = ''vault.png'', pc_category = ''Office'', pc_stock = 1\<rparr>"

definition huge_requests :: "request list" where
  "huge_requests =
     [CreateProduct huge_data ''P1'' 0, CreateProduct huge_data ''P2'' 0,
      AddToCart (add_req ''P1'' 2) ''u1'' ''c1'' 1, AddToCart (add_req ''P2'' (- 2)) ''u1'' ''c2'' 2]"

subsection \<open>State invariants\<close>

text \<open>The product of a line item can be computed: the quantity converts to a float.\<close>

definition line_total_ok :: "CartItem \<Rightarrow> bool" where
  "line_total_ok item \<longleftrightarrow> \<not> isl (float_mul_int (ci_price item) (ci_quantity item))"

definition cart_total_ok :: "Cart \<Rightarrow> bool" where
  "cart_total_ok c \<longleftrightarrow> cart_sum (c_items c) = Inr (c_total c)"

definition carts_total_ok :: "db \<Rightarrow> bool" where
  "carts_total_ok d \<longleftrightarrow> list_all cart_total_ok (carts d)"

definition one_cart_per_user :: "db \<Rightarrow> bool" where
  "one_cart_per_user d \<longleftrightarrow> distinct (map c_user_id (carts d))"

definition cart_products_distinct :: "Cart \<Rightarrow> bool" where
  "cart_products_distinct c \<longleftrightarrow> distinct (map ci_product_id (c_items c))"

definition carts_products_distinct :: "db \<Rightarrow> bool" where
  "carts_products_distinct d \<longleftrightarrow> list_all cart_products_distinct (carts d)"

definition status_ok :: "Order \<Rightarrow> bool" where
  "status_ok ord \<longleftrightarrow> o_status ord = ''pending'' \<or> o_status ord = ''paid''"

definition orders_status_ok :: "db \<Rightarrow> bool" where
  "orders_status_ok d \<longleftrightarrow> list_all status_ok (orders d)"

section \<open>Lemmas about floats\<close>

lemma round_half_even_of_int [simp]: "round_half_even (of_int k) = k"
  by (simp add: round_half_even_def)

lemma exponent_of_int: "n \<noteq> 0 \<Longrightarrow> exponent (of_int n) = bitlen \<bar>n\<bar> - 1"
proof -
  assume "n \<noteq> 0"
  then have "1 \<le> \<bar>real_of_int n\<bar>" by linarith
  moreover have "\<lfloor>\<bar>real_of_int n\<bar>\<rfloor> = \<bar>n\<bar>" by linarith
  ultimately show ?thesis by (simp add: exponent_def)
qed

lemma bitlen_ge_1: "0 < m \<Longrightarrow> 1 \<le> bitlen m"
  by (simp add: bitlen_alt_def)

lemma round_half_even_bound: "\<bar>real_of_int (round_half_even r)\<bar> \<le> \<bar>r\<bar> + 1"
  unfolding round_half_even_def Let_def by (auto; linarith)

lemma exponent_of_int_bounds:
  assumes "n \<noteq> 0"
  shows "0 \<le> exponent (of_int n)"
    and "2 powi (exponent (of_int n)) \<le> \<bar>real_of_int n\<bar>"
    and "\<bar>n\<bar> < 2 ^ k \<Longrightarrow> exponent (of_int n) < int k"
proof -
  from assms have pos: "0 < \<bar>n\<bar>" by simp
  have e: "exponent (of_int n) = bitlen \<bar>n\<bar> - 1"
    using assms by (rule exponent_of_int)
  from bitlen_ge_1 [OF pos] show nonneg: "0 \<le> exponent (of_int n)"
    by (simp add: e)
  from bitlen_bounds [OF pos] have "2 ^ nat (bitlen \<bar>n\<bar> - 1) \<le> \<bar>n\<bar>" by simp
  then have "(2::real) ^ nat (bitlen \<bar>n\<bar> - 1) \<le> real_of_int \<bar>n\<bar>"
    by (metis of_int_le_iff of_int_numeral of_int_power)
  then show "2 powi (exponent (of_int n)) \<le> \<bar>real_of_int n\<bar>"
    using nonneg by (simp add: e power_int_nonneg_exp)
  show "exponent (of_int n) < int k" if "\<bar>n\<bar> < 2 ^ k"
  proof -
    from that have "bitlen \<bar>n\<bar> \<le> int k"
      by (simp add: bitlen_le_iff_power)
    then show ?thesis by (simp add: e)
  qed
qed

lemma round64_of_int_exact:
  assumes "\<bar>n\<bar> < 2 ^ 53"
  shows "round64 (of_int n) = Fin (of_int n)"
proof (cases "n = 0")
  case True
  then show ?thesis by (simp add: round64_def)
next
  case False
  let ?e = "exponent (real_of_int n)"
  have e: "0 \<le> ?e" "?e < 53"
    using exponent_of_int_bounds(1) [OF False] exponent_of_int_bounds(3) [OF False assms]
    by simp_all
  define k where "k = nat (52 - ?e)"
  have q: "max ?e (- 1022) - 52 = - int k"
    using e by (simp add: k_def)
  have p: "(2::real) powi (- int k) = 1 / 2 ^ k"
    by (simp add: power_int_minus_divide)
  have "real_of_int n / 2 powi (- int k) = of_int (n * 2 ^ k)"
    by (simp add: p)
  then have r: "round_half_even (real_of_int n / 2 powi (- int k)) = n * 2 ^ k"
    by (simp only: round_half_even_of_int)
  have y: "of_int (n * 2 ^ k) * (2::real) powi (- int k) = of_int n"
    by (simp add: p)
  have "\<bar>real_of_int n\<bar> < 2 ^ 53"
    using assms by (metis of_int_abs of_int_less_iff of_int_numeral of_int_power)
  also have "\<dots> < (2::real) ^ 1024"
    by (rule power_strict_increasing) simp_all
  finally have small: "\<not> (2::real) ^ 1024 \<le> \<bar>real_of_int n\<bar>" by simp
  show ?thesis
    using False small
    unfolding round64_def Let_def q r y by simp
qed

lemma round64_of_int_finite:
  assumes "\<bar>n\<bar> < 2 ^ 1000"
  shows "\<exists>y. round64 (of_int n) = Fin y"
proof (cases "n = 0")
  case True
  then show ?thesis by (simp add: round64_def)
next
  case False
  let ?x = "real_of_int n"
  let ?q = "max (exponent ?x) (- 1022) - 52"
  let ?y = "of_int (round_half_even (?x / 2 powi ?q)) * (2::real) powi ?q"
  have e: "0 \<le> exponent ?x" "2 powi (exponent ?x) \<le> \<bar>?x\<bar>" "exponent ?x < 1000"
    using exponent_of_int_bounds(1,2) [OF False] exponent_of_int_bounds(3) [OF False assms]
    by simp_all
  have "(2::real) powi ?q \<le> 2 powi (exponent ?x)"
    using e(1) by (intro power_int_increasing) simp_all
  with e(2) have u: "(2::real) powi ?q \<le> \<bar>?x\<bar>" by simp
  have pos: "0 < (2::real) powi ?q" by simp
  have "\<bar>?y\<bar> = \<bar>real_of_int (round_half_even (?x / 2 powi ?q))\<bar> * 2 powi ?q"
    by (simp add: abs_mult)
  also have "\<dots> \<le> (\<bar>?x / 2 powi ?q\<bar> + 1) * 2 powi ?q"
    by (intro mult_right_mono round_half_even_bound) simp
  also have "\<dots> = \<bar>?x\<bar> + 2 powi ?q"
    using pos by (simp add: field_simps abs_mult)
  also have "\<dots> \<le> 2 * \<bar>?x\<bar>"
    using u by simp
  also have "\<bar>?x\<bar> < 2 ^ 1000"
    using assms by (metis of_int_abs of_int_less_iff of_int_numeral of_int_power)
  finally have "\<bar>?y\<bar> < 2 * 2 ^ 1000" by simp
  also have "\<dots> = (2::real) ^ 1001" by simp
  also have "\<dots> < (2::real) ^ 1024"
    by (rule power_strict_increasing) simp_all
  finally have "\<not> 2 ^ 1024 \<le> \<bar>?y\<bar>" by simp
  then show ?thesis
    using False unfolding round64_def Let_def by simp
qed

lemma round64_overflow:
  "round64 (2 ^ 1024) = PInf" "round64 (- (2 ^ 1024)) = NInf"
proof -
  have n: "(2::int) ^ 1024 \<noteq> 0" "- ((2::int) ^ 1024) \<noteq> 0" by simp_all
  have b: "bitlen (2 ^ 1024) = 1025"
    using bitlen_pow2 [of 1 1024] by (simp add: bitlen_alt_def)
  have e: "exponent (2 ^ 1024) = 1024" "exponent (- (2 ^ 1024)) = 1024"
    using exponent_of_int [OF n(1)] exponent_of_int [OF n(2)] b by simp_all
  have q: "max (1024::int) (- 1022) - 52 = 972" by simp
  have d: "(2::real) ^ 1024 / 2 powi 972 = of_int (2 ^ 52)"
    "- ((2::real) ^ 1024) / 2 powi 972 = of_int (- (2 ^ 52))"
    by simp_all
  have y: "real_of_int (2 ^ 52) * 2 powi 972 = 2 ^ 1024"
    "real_of_int (- (2 ^ 52)) * 2 powi 972 = - (2 ^ 1024)"
    by simp_all
  show "round64 (2 ^ 1024) = PInf"
    unfolding round64_def Let_def e q d(1) round_half_even_of_int y(1) by simp
  show "round64 (- (2 ^ 1024)) = NInf"
    unfolding round64_def Let_def e q d(2) round_half_even_of_int y(2) by simp
qed

lemma round64_0 [simp]: "round64 0 = Fin 0"
  by (simp add: round64_def)

lemma round64_1: "round64 1 = Fin 1"
  using round64_of_int_exact [of 1] by simp

lemma round64_numeral:
  "(numeral k :: int) < 2 ^ 53 \<Longrightarrow> round64 (numeral k) = Fin (numeral k)"
  using round64_of_int_exact [of "numeral k"] by simp

lemma round64_neg_numeral:
  "(numeral k :: int) < 2 ^ 53 \<Longrightarrow> round64 (- numeral k) = Fin (- numeral k)"
  using round64_of_int_exact [of "- numeral k"] by simp

lemma float_of_int_exact: "\<bar>n\<bar> < 2 ^ 53 \<Longrightarrow> float_of_int n = Inr (Fin (of_int n))"
  by (simp add: float_of_int_def round64_of_int_exact)

lemma float_of_int_0: "float_of_int 0 = Inr (Fin 0)"
  using float_of_int_exact [of 0] by simp

lemma float_of_int_1: "float_of_int 1 = Inr (Fin 1)"
  using float_of_int_exact [of 1] by simp

lemma float_of_int_minus_1: "float_of_int (- 1) = Inr (Fin (- 1))"
  using float_of_int_exact [of "- 1"] by simp

lemma round64_minus_1: "round64 (- 1) = Fin (- 1)"
  using round64_of_int_exact [of "- 1"] by simp

lemma float_of_int_numeral:
  "(numeral k :: int) < 2 ^ 53 \<Longrightarrow> float_of_int (numeral k) = Inr (Fin (numeral k))"
  using float_of_int_exact [of "numeral k"] by simp

lemma float_of_int_neg_numeral:
  "(numeral k :: int) < 2 ^ 53 \<Longrightarrow> float_of_int (- numeral k) = Inr (Fin (- numeral k))"
  using float_of_int_exact [of "- numeral k"] by simp

lemma int64_abs: "int64 n \<Longrightarrow> \<bar>n\<bar> < 2 ^ 1000"
proof -
  assume "int64 n"
  then have "\<bar>n\<bar> \<le> 2 ^ 63" unfolding int64_def by linarith
  also have "(2::int) ^ 63 < 2 ^ 1000"
    by (rule power_strict_increasing) simp_all
  finally show ?thesis .
qed

lemma float_of_int_int64: "int64 n \<Longrightarrow> \<exists>y. float_of_int n = Inr (Fin y)"
  using round64_of_int_finite [OF int64_abs, of n] by (auto simp: float_of_int_def)

lemma float_of_int_Inl: "float_of_int n = Inl e \<Longrightarrow> e = OverflowError"
  by (auto simp: float_of_int_def split: pyfloat.splits)

lemma float_mul_int_int64: "int64 n \<Longrightarrow> \<exists>x. float_mul_int a n = Inr x"
  using float_of_int_int64 [of n] by (auto simp: float_mul_int_def)

lemma float_mul_int_Inl: "float_mul_int a n = Inl e \<Longrightarrow> e = OverflowError"
  by (auto simp: float_mul_int_def float_of_int_Inl split: sum.splits)

lemma float_eq_refl: "a \<noteq> NaN \<Longrightarrow> float_eq a a"
  by (cases a) simp_all

lemma float_eq_NaN [simp]: "\<not> float_eq NaN a" "\<not> float_eq a NaN"
  by (cases a; simp)+

lemma huge_times_2: "float_mul_int huge 2 = Inr PInf"
proof -
  have "(2::real) ^ 1023 * 2 = 2 ^ 1024" by simp
  then have "float_mul (Fin (2 ^ 1023)) (Fin 2) = PInf"
    by (simp only: float_mul.simps round64_overflow)
  then show ?thesis
    by (simp only: float_mul_int_def huge_def float_of_int_numeral [of "Num.Bit0 Num.One", simplified]
        sum.case)
qed

lemma huge_times_minus_2: "float_mul_int huge (- 2) = Inr NInf"
proof -
  have "(2::real) ^ 1023 * - 2 = - (2 ^ 1024)" by simp
  then have "float_mul (Fin (2 ^ 1023)) (Fin (- 2)) = NInf"
    by (simp only: float_mul.simps round64_overflow)
  then show ?thesis
    by (simp only: float_mul_int_def huge_def
        float_of_int_neg_numeral [of "Num.Bit0 Num.One", simplified] sum.case)
qed

subsection \<open>The sum of a cart\<close>

lemma py_sum_Inr_iff: "(\<exists>t. py_sum acc its = Inr t) \<longleftrightarrow> list_all line_total_ok its"
proof (induction its arbitrary: acc)
  case Nil
  then show ?case by simp
next
  case (Cons item its)
  show ?case
  proof (cases "float_mul_int (ci_price item) (ci_quantity item)")
    case (Inl e)
    then show ?thesis by (simp add: line_total_ok_def)
  next
    case (Inr x)
    with Cons.IH [of "float_add acc x"] show ?thesis by (simp add: line_total_ok_def)
  qed
qed

lemma py_sum_Inl: "py_sum acc its = Inl e \<Longrightarrow> e = OverflowError"
proof (induction its arbitrary: acc)
  case Nil
  then show ?case by simp
next
  case (Cons item its)
  then show ?case
    by (cases "float_mul_int (ci_price item) (ci_quantity item)")
      (auto dest: float_mul_int_Inl)
qed

lemma cart_sum_Inl: "cart_sum its = Inl e \<Longrightarrow> e = OverflowError"
  unfolding cart_sum_def by (rule py_sum_Inl)

lemma cart_sum_Inr_iff: "(\<exists>t. cart_sum its = Inr t) \<longleftrightarrow> list_all line_total_ok its"
  unfolding cart_sum_def by (rule py_sum_Inr_iff)

lemma int64_line_total_ok: "int64 (ci_quantity item) \<Longrightarrow> line_total_ok item"
  using float_mul_int_int64 [of "ci_quantity item" "ci_price item"]
  by (auto simp: line_total_ok_def)

lemma encodable_line_total_ok: "encodable its \<Longrightarrow> list_all line_total_ok its"
  unfolding encodable_def list_all_iff using int64_line_total_ok by blast

lemma cart_sum_encodable: "encodable its \<Longrightarrow> \<exists>t. cart_sum its = Inr t"
  using cart_sum_Inr_iff [of its] encodable_line_total_ok [of its] by blast

lemma cart_sum_Nil [simp]: "cart_sum [] = Inr (Fin 0)"
  by (simp add: cart_sum_def)

section \<open>Lemmas about the store\<close>

lemma find_one_None_iff: "find_one q ds = None \<longleftrightarrow> (\<forall>x\<in>set ds. \<not> q x)"
  by (induction ds) auto

lemma find_one_SomeD: "find_one q ds = Some x \<Longrightarrow> x \<in> set ds \<and> q x"
  by (induction ds) (auto split: if_splits)

lemma list_all_replace_one:
  "list_all P ds \<Longrightarrow> P x \<Longrightarrow> list_all P (replace_one q x upsert ds)"
  by (induction ds) auto

lemma list_all_delete_one: "list_all P ds \<Longrightarrow> list_all P (delete_one q ds)"
  by (induction ds) auto

lemma list_all_update_one:
  "list_all P ds \<Longrightarrow> (\<And>x. P x \<Longrightarrow> P (f x)) \<Longrightarrow> list_all P (update_one q f ds)"
  by (induction ds) auto

lemma find_one_list_all: "find_one q ds = Some x \<Longrightarrow> list_all P ds \<Longrightarrow> P x"
  by (induction ds) (auto split: if_splits)

lemma find_one_key_None_iff: "find_one (\<lambda>x. f x = k) ds = None \<longleftrightarrow> k \<notin> f ` set ds"
  by (induction ds) auto

lemma find_one_replace_one:
  "q x \<Longrightarrow> upsert \<or> find_one q ds \<noteq> None \<Longrightarrow> find_one q (replace_one q x upsert ds) = Some x"
  by (induction ds) auto

lemma find_one_append_None:
  "find_one q ds = None \<Longrightarrow> find_one q (ds @ [x]) = (if q x then Some x else None)"
  by (induction ds) (auto split: if_splits)

lemma map_user_id_replace_one:
  "c_user_id c = uid \<Longrightarrow>
     map c_user_id (replace_one (\<lambda>c. c_user_id c = uid) c upsert cs) =
       (if uid \<in> set (map c_user_id cs) \<or> \<not> upsert then map c_user_id cs
        else map c_user_id cs @ [uid])"
  by (induction cs) auto

lemma set_delete_one: "set (delete_one q ds) \<subseteq> set ds"
  by (induction ds) auto

lemma distinct_map_delete_one: "distinct (map f ds) \<Longrightarrow> distinct (map f (delete_one q ds))"
proof (induction ds)
  case Nil
  then show ?case by simp
next
  case (Cons a ds)
  have "f a \<notin> f ` set (delete_one q ds)"
    using Cons.prems set_delete_one [of q ds] by auto
  with Cons show ?case by simp
qed

lemma find_one_delete_one:
  "distinct (map c_user_id cs) \<Longrightarrow>
     find_one (\<lambda>c. c_user_id c = uid) (delete_one (\<lambda>c. c_user_id c = uid) cs) = None"
proof (induction cs)
  case Nil
  then show ?case by simp
next
  case (Cons a cs)
  show ?case
  proof (cases "c_user_id a = uid")
    case True
    with Cons.prems have "uid \<notin> c_user_id ` set cs" by simp
    then have "\<forall>x\<in>set cs. c_user_id x \<noteq> uid" by blast
    with True show ?thesis by (simp add: find_one_None_iff)
  next
    case False
    with Cons show ?thesis by simp
  qed
qed

lemma find_one_user_id: "find_one (\<lambda>c. c_user_id c = uid) cs = Some c \<Longrightarrow> c_user_id c = uid"
  by (drule find_one_SomeD) simp

lemma length_update_one [simp]: "length (update_one q f ds) = length ds"
  by (induction ds) auto

lemma nth_update_one:
  "i < length ds \<Longrightarrow> update_one q f ds ! i = ds ! i \<or> update_one q f ds ! i = f (ds ! i)"
proof (induction ds arbitrary: i)
  case Nil
  then show ?case by simp
next
  case (Cons a ds)
  then show ?case by (cases i) auto
qed

lemma replace_one_append:
  "find_one q ds = None \<Longrightarrow> replace_one q x True ds = ds @ [x]"
  by (induction ds) (auto split: if_splits)

subsection \<open>Line items of a cart\<close>

lemma existing_item_None_iff:
  "existing_item pid its = None \<longleftrightarrow> pid \<notin> set (map ci_product_id its)"
  by (induction its) auto

lemma existing_item_SomeD:
  "existing_item pid its = Some i \<Longrightarrow>
     i < length its \<and> ci_product_id (its ! i) = pid \<and> (\<forall>j<i. ci_product_id (its ! j) \<noteq> pid)"
proof (induction its arbitrary: i)
  case Nil
  then show ?case by simp
next
  case (Cons a its)
  show ?case
  proof (cases "ci_product_id a = pid")
    case True
    with Cons.prems show ?thesis by simp
  next
    case False
    with Cons.prems obtain k where k: "existing_item pid its = Some k" "i = Suc k"
      by auto
    from Cons.IH [OF k(1)] False k(2) show ?thesis
      by (auto simp: less_Suc_eq_0_disj)
  qed
qed

lemma map_product_id_add_item:
  "map ci_product_id (add_item pid qty price its) =
     (if pid \<in> set (map ci_product_id its) then map ci_product_id its
      else map ci_product_id its @ [pid])"
proof (cases "existing_item pid its")
  case None
  then have "pid \<notin> set (map ci_product_id its)"
    using existing_item_None_iff [of pid its] by blast
  with None show ?thesis
    by (simp add: add_item_def)
next
  case (Some i)
  from existing_item_SomeD [OF Some] have i: "i < length its" "ci_product_id (its ! i) = pid"
    by simp_all
  have "pid \<in> set (map ci_product_id its)"
    using i by (metis length_map nth_map nth_mem)
  moreover have "map ci_product_id (its[i := (its ! i)\<lparr>ci_quantity := ci_quantity (its ! i) + qty\<rparr>])
      = map ci_product_id its"
    using i by (simp add: map_update list_update_same_conv)
  ultimately show ?thesis
    using Some by (simp add: add_item_def)
qed

lemma distinct_add_item:
  "distinct (map ci_product_id its) \<Longrightarrow> distinct (map ci_product_id (add_item pid qty price its))"
  by (simp add: map_product_id_add_item)

lemma distinct_filter_items:
  "distinct (map ci_product_id its) \<Longrightarrow>
     distinct (map ci_product_id (filter (\<lambda>item. ci_product_id item \<noteq> pid) its))"
  by (simp add: distinct_map_filter)

lemma add_item_Cons:
  "add_item pid qty price (x # xs) =
     (if ci_product_id x = pid then x\<lparr>ci_quantity := ci_quantity x + qty\<rparr> # xs
      else x # add_item pid qty price xs)"
  by (cases "existing_item pid xs") (simp_all add: add_item_def)

lemma add_item_existing:
  assumes "it \<in> set its" and "ci_product_id it = pid" and "distinct (map ci_product_id its)"
  shows "filter (\<lambda>i. ci_product_id i = pid) (add_item pid qty price its) =
           [it\<lparr>ci_quantity := ci_quantity it + qty\<rparr>] \<and>
         filter (\<lambda>i. ci_product_id i \<noteq> pid) (add_item pid qty price its) =
           filter (\<lambda>i. ci_product_id i \<noteq> pid) its \<and>
         length (add_item pid qty price its) = length its"
  using assms
proof (induction its)
  case Nil
  then show ?case by simp
next
  case (Cons x xs)
  show ?case
  proof (cases "ci_product_id x = pid")
    case True
    with Cons.prems have "pid \<notin> ci_product_id ` set xs" by simp
    then have none: "\<forall>i\<in>set xs. ci_product_id i \<noteq> pid" by blast
    with Cons.prems True have "it = x" by auto
    moreover from none have "filter (\<lambda>i. ci_product_id i = pid) xs = []"
      by (simp add: filter_empty_conv)
    ultimately show ?thesis using True by (simp add: add_item_Cons)
  next
    case False
    with Cons.prems have "it \<in> set xs" by auto
    with Cons.IH Cons.prems False show ?thesis by (simp add: add_item_Cons)
  qed
qed

lemma filter_absent:
  "pid \<notin> ci_product_id ` set its \<Longrightarrow> filter (\<lambda>item. ci_product_id item \<noteq> pid) its = its"
  by (induction its) auto

lemma add_item_absent:
  "pid \<notin> ci_product_id ` set its \<Longrightarrow>
     add_item pid qty price its =
       its @ [\<lparr>ci_product_id = pid, ci_quantity = qty, ci_price = price\<rparr>]"
  using existing_item_None_iff [of pid its] by (simp add: add_item_def)

subsection \<open>What each handler returns\<close>

lemma db_after_simps [simp]:
  "db_after d (Inl e) = d"
  "db_after d (Inr (x, d')) = d'"
  by (simp_all add: db_after_def)

lemma get_cart_None:
  "find_one (\<lambda>c. c_user_id c = uid) (carts d) = None \<Longrightarrow>
     get_cart uid new_id now d =
       Inr (new_cart new_id uid now, d\<lparr>carts := carts d @ [new_cart new_id uid now]\<rparr>)"
  by (simp add: get_cart_def insert_one_def Let_def)

lemma get_cart_Some:
  "find_one (\<lambda>c. c_user_id c = uid) (carts d) = Some c \<Longrightarrow> get_cart uid new_id now d = Inr (c, d)"
  by (simp add: get_cart_def)

lemma add_to_cart_None:
  "find_one (\<lambda>p. p_id p = req_product_id item) (products d) = None \<Longrightarrow>
     add_to_cart item uid new_id now d = Inl (HTTPException 404 ''Product not found'')"
  by (simp add: add_to_cart_def)

lemma add_to_cart_found:
  "find_one (\<lambda>p. p_id p = req_product_id item) (products d) = Some product \<Longrightarrow>
     add_to_cart item uid new_id now d =
       (case cart_sum (added_items item (p_price product) (cart_or_new uid new_id now d)) of
          Inl e \<Rightarrow> Inl e
        | Inr tot \<Rightarrow>
            if encodable (added_items item (p_price product) (cart_or_new uid new_id now d))
            then Inr (''Item added to cart'',
                      d\<lparr>carts := replace_one (\<lambda>c. c_user_id c = uid)
                                    (added_cart item (p_price product) tot now
                                       (cart_or_new uid new_id now d))
                                    True (carts d)\<rparr>)
            else Inl OverflowError)"
  by (simp add: add_to_cart_def added_cart_def added_items_def cart_or_new_def Let_def
      split: sum.splits)

lemma add_to_cart_InrD:
  assumes "add_to_cart item uid new_id now d = Inr (msg, d')"
  shows "\<exists>product tot.
           find_one (\<lambda>p. p_id p = req_product_id item) (products d) = Some product \<and>
           cart_sum (added_items item (p_price product) (cart_or_new uid new_id now d)) = Inr tot \<and>
           encodable (added_items item (p_price product) (cart_or_new uid new_id now d)) \<and>
           msg = ''Item added to cart'' \<and>
           d' = d\<lparr>carts := replace_one (\<lambda>c. c_user_id c = uid)
                               (added_cart item (p_price product) tot now
                                  (cart_or_new uid new_id now d))
                               True (carts d)\<rparr>"
proof (cases "find_one (\<lambda>p. p_id p = req_product_id item) (products d)")
  case None
  with assms show ?thesis by (simp add: add_to_cart_None)
next
  case (Some product)
  from assms show ?thesis
    unfolding add_to_cart_found [OF Some] using Some
    by (auto split: sum.splits if_splits)
qed

lemma add_to_cart_InrE:
  assumes ok: "add_to_cart item uid new_id now d = Inr (msg, d')"
  obtains product tot where
    "find_one (\<lambda>p. p_id p = req_product_id item) (products d) = Some product"
    "cart_sum (added_items item (p_price product) (cart_or_new uid new_id now d)) = Inr tot"
    "encodable (added_items item (p_price product) (cart_or_new uid new_id now d))"
    "msg = ''Item added to cart''"
    "d' = d\<lparr>carts := replace_one (\<lambda>c. c_user_id c = uid)
                        (added_cart item (p_price product) tot now (cart_or_new uid new_id now d))
                        True (carts d)\<rparr>"
proof (cases "find_one (\<lambda>p. p_id p = req_product_id item) (products d)")
  case None
  with ok show ?thesis by (simp add: add_to_cart_None)
next
  case (Some product)
  show ?thesis
  proof (cases "cart_sum (added_items item (p_price product) (cart_or_new uid new_id now d))")
    case (Inl e)
    with ok show ?thesis by (simp add: add_to_cart_found [OF Some])
  next
    case (Inr tot)
    show ?thesis
    proof (cases "encodable (added_items item (p_price product) (cart_or_new uid new_id now d))")
      case True
      with ok Inr have "msg = ''Item added to cart''"
        and "d' = d\<lparr>carts := replace_one (\<lambda>c. c_user_id c = uid)
                        (added_cart item (p_price product) tot now (cart_or_new uid new_id now d))
                        True (carts d)\<rparr>"
        by (simp_all add: add_to_cart_found [OF Some])
      with Some Inr True show ?thesis by (rule that)
    next
      case False
      with ok Inr show ?thesis by (simp add: add_to_cart_found [OF Some])
    qed
  qed
qed

lemma add_to_cart_InrI:
  assumes "find_one (\<lambda>p. p_id p = req_product_id item) (products d) = Some product"
    and "encodable (added_items item (p_price product) (cart_or_new uid new_id now d))"
  shows "\<exists>tot. cart_sum (added_items item (p_price product) (cart_or_new uid new_id now d)) =
                  Inr tot \<and>
           add_to_cart item uid new_id now d =
             Inr (''Item added to cart'',
                  d\<lparr>carts := replace_one (\<lambda>c. c_user_id c = uid)
                                (added_cart item (p_price product) tot now
                                   (cart_or_new uid new_id now d))
                                True (carts d)\<rparr>)"
proof -
  from cart_sum_encodable [OF assms(2)] obtain tot where
    t: "cart_sum (added_items item (p_price product) (cart_or_new uid new_id now d)) = Inr tot"
    by blast
  then show ?thesis
    using assms(2) by (simp add: add_to_cart_found [OF assms(1)])
qed

lemma add_to_cart_overflow:
  assumes "find_one (\<lambda>p. p_id p = req_product_id item) (products d) = Some product"
    and "\<not> encodable (added_items item (p_price product) (cart_or_new uid new_id now d))"
  shows "add_to_cart item uid new_id now d = Inl OverflowError"
proof (cases "cart_sum (added_items item (p_price product) (cart_or_new uid new_id now d))")
  case (Inl e)
  from cart_sum_Inl [OF Inl] Inl show ?thesis
    by (simp add: add_to_cart_found [OF assms(1)])
next
  case (Inr tot)
  with assms(2) show ?thesis
    by (simp add: add_to_cart_found [OF assms(1)])
qed

lemma cart_or_new_user_id [simp]: "c_user_id (cart_or_new uid new_id now d) = uid"
proof (cases "find_one (\<lambda>c. c_user_id c = uid) (carts d)")
  case None
  then show ?thesis by (simp add: cart_or_new_def new_cart_def)
next
  case (Some c)
  from find_one_user_id [OF Some] Some show ?thesis by (simp add: cart_or_new_def)
qed

lemma added_cart_user_id [simp]: "c_user_id (added_cart item price tot now cart) = c_user_id cart"
  by (simp add: added_cart_def)

lemma added_cart_items [simp]:
  "c_items (added_cart item price tot now cart) = added_items item price cart"
  by (simp add: added_cart_def)

lemma added_cart_total [simp]: "c_total (added_cart item price tot now cart) = tot"
  by (simp add: added_cart_def)

lemma remove_from_cart_None:
  "find_one (\<lambda>c. c_user_id c = uid) (carts d) = None \<Longrightarrow>
     remove_from_cart product_id uid now d = Inl (HTTPException 404 ''Cart not found'')"
  by (simp add: remove_from_cart_def)

lemma remove_from_cart_found:
  "find_one (\<lambda>c. c_user_id c = uid) (carts d) = Some cart \<Longrightarrow>
     remove_from_cart product_id uid now d =
       (case cart_sum (removed_items product_id cart) of
          Inl e \<Rightarrow> Inl e
        | Inr tot \<Rightarrow>
            Inr (''Item removed from cart'',
                 d\<lparr>carts := replace_one (\<lambda>c. c_user_id c = uid)
                               (removed_cart product_id tot now cart) False (carts d)\<rparr>))"
  by (simp add: remove_from_cart_def removed_cart_def removed_items_def Let_def split: sum.splits)

lemma remove_from_cart_InrD:
  assumes "remove_from_cart product_id uid now d = Inr (msg, d')"
  shows "\<exists>cart tot.
           find_one (\<lambda>c. c_user_id c = uid) (carts d) = Some cart \<and>
           cart_sum (removed_items product_id cart) = Inr tot \<and>
           msg = ''Item removed from cart'' \<and>
           d' = d\<lparr>carts := replace_one (\<lambda>c. c_user_id c = uid)
                               (removed_cart product_id tot now cart) False (carts d)\<rparr>"
proof (cases "find_one (\<lambda>c. c_user_id c = uid) (carts d)")
  case None
  with assms show ?thesis by (simp add: remove_from_cart_None)
next
  case (Some cart)
  from assms show ?thesis
    unfolding remove_from_cart_found [OF Some] using Some
    by (auto split: sum.splits)
qed

lemma remove_from_cart_InrE:
  assumes ok: "remove_from_cart product_id uid now d = Inr (msg, d')"
  obtains cart tot where
    "find_one (\<lambda>c. c_user_id c = uid) (carts d) = Some cart"
    "cart_sum (removed_items product_id cart) = Inr tot"
    "msg = ''Item removed from cart''"
    "d' = d\<lparr>carts := replace_one (\<lambda>c. c_user_id c = uid)
                        (removed_cart product_id tot now cart) False (carts d)\<rparr>"
proof (cases "find_one (\<lambda>c. c_user_id c = uid) (carts d)")
  case None
  with ok show ?thesis by (simp add: remove_from_cart_None)
next
  case (Some cart)
  show ?thesis
  proof (cases "cart_sum (removed_items product_id cart)")
    case (Inl e)
    with ok show ?thesis by (simp add: remove_from_cart_found [OF Some])
  next
    case (Inr tot)
    with ok have "msg = ''Item removed from cart''"
      and "d' = d\<lparr>carts := replace_one (\<lambda>c. c_user_id c = uid)
                        (removed_cart product_id tot now cart) False (carts d)\<rparr>"
      by (simp_all add: remove_from_cart_found [OF Some])
    with Some Inr show ?thesis by (rule that)
  qed
qed

lemma removed_cart_user_id [simp]:
  "c_user_id (removed_cart product_id tot now cart) = c_user_id cart"
  by (simp add: removed_cart_def)

lemma removed_cart_items [simp]:
  "c_items (removed_cart product_id tot now cart) = removed_items product_id cart"
  by (simp add: removed_cart_def)

lemma removed_cart_total [simp]: "c_total (removed_cart product_id tot now cart) = tot"
  by (simp add: removed_cart_def)

lemma create_order_None:
  "find_one (\<lambda>c. c_user_id c = uid) (carts d) = None \<Longrightarrow>
     create_order shipping_address uid new_id now d = Inl (HTTPException 400 ''Cart is empty'')"
  by (simp add: create_order_def)

lemma create_order_empty:
  "find_one (\<lambda>c. c_user_id c = uid) (carts d) = Some cart \<Longrightarrow> c_items cart = [] \<Longrightarrow>
     create_order shipping_address uid new_id now d = Inl (HTTPException 400 ''Cart is empty'')"
  by (simp add: create_order_def)

lemma create_order_Some:
  "find_one (\<lambda>c. c_user_id c = uid) (carts d) = Some cart \<Longrightarrow> c_items cart \<noteq> [] \<Longrightarrow>
     create_order shipping_address uid new_id now d =
       Inr (order_of shipping_address uid new_id now (products d) cart,
            d\<lparr>orders := orders d @ [order_of shipping_address uid new_id now (products d) cart],
              carts := delete_one (\<lambda>c. c_user_id c = uid) (carts d)\<rparr>)"
  by (simp add: create_order_def order_of_def insert_one_def Let_def)

lemma create_order_InrD:
  assumes "create_order shipping_address uid new_id now d = Inr (ord, d')"
  shows "\<exists>cart. find_one (\<lambda>c. c_user_id c = uid) (carts d) = Some cart \<and> c_items cart \<noteq> [] \<and>
           ord = order_of shipping_address uid new_id now (products d) cart \<and>
           d' = d\<lparr>orders := orders d @ [ord], carts := delete_one (\<lambda>c. c_user_id c = uid) (carts d)\<rparr>"
proof (cases "find_one (\<lambda>c. c_user_id c = uid) (carts d)")
  case None
  with assms show ?thesis by (simp add: create_order_None)
next
  case (Some cart)
  show ?thesis
  proof (cases "c_items cart = []")
    case True
    with assms show ?thesis by (simp add: create_order_empty [OF Some])
  next
    case False
    from assms show ?thesis
      unfolding create_order_Some [OF Some False] using Some False by auto
  qed
qed

lemma process_payment_None:
  "find_one (\<lambda>ord. o_id ord = order_id \<and> o_user_id ord = uid) (orders d) = None \<Longrightarrow>
     process_payment order_id uid new_id now d = Inl (HTTPException 404 ''Order not found'')"
  by (simp add: process_payment_def)

lemma process_payment_Some:
  "find_one (\<lambda>ord. o_id ord = order_id \<and> o_user_id ord = uid) (orders d) = Some ord \<Longrightarrow>
     process_payment order_id uid new_id now d =
       Inr (payment_of order_id new_id now ord,
            d\<lparr>payments := payments d @ [payment_of order_id new_id now ord],
              orders := update_one (\<lambda>ord. o_id ord = order_id)
                          (\<lambda>ord. ord\<lparr>o_status := ''paid''\<rparr>) (orders d)\<rparr>)"
  by (simp add: process_payment_def payment_of_def insert_one_def Let_def)

lemma create_product_cases:
  "create_product product_data new_id now d = Inl OverflowError \<or>
   create_product product_data new_id now d =
     Inr (product_of product_data new_id now,
          d\<lparr>products := products d @ [product_of product_data new_id now]\<rparr>)"
  by (simp add: create_product_def Let_def insert_one_def)

subsection \<open>The collections a request leaves alone\<close>

lemma handle_add_to_cart:
  "handle d (AddToCart item uid new_id now) = d \<or>
   (\<exists>product tot.
      find_one (\<lambda>p. p_id p = req_product_id item) (products d) = Some product \<and>
      cart_sum (added_items item (p_price product) (cart_or_new uid new_id now d)) = Inr tot \<and>
      encodable (added_items item (p_price product) (cart_or_new uid new_id now d)) \<and>
      handle d (AddToCart item uid new_id now) =
        d\<lparr>carts := replace_one (\<lambda>c. c_user_id c = uid)
                      (added_cart item (p_price product) tot now (cart_or_new uid new_id now d))
                      True (carts d)\<rparr>)"
proof (cases "add_to_cart item uid new_id now d")
  case (Inl e)
  then show ?thesis by simp
next
  case (Inr r)
  obtain msg d' where r: "r = (msg, d')" by (cases r)
  from add_to_cart_InrD [OF Inr [unfolded r]] Inr r show ?thesis by auto
qed

lemma handle_remove_from_cart:
  "handle d (RemoveFromCart product_id uid now) = d \<or>
   (\<exists>cart tot.
      find_one (\<lambda>c. c_user_id c = uid) (carts d) = Some cart \<and>
      cart_sum (removed_items product_id cart) = Inr tot \<and>
      handle d (RemoveFromCart product_id uid now) =
        d\<lparr>carts := replace_one (\<lambda>c. c_user_id c = uid)
                      (removed_cart product_id tot now cart) False (carts d)\<rparr>)"
proof (cases "remove_from_cart product_id uid now d")
  case (Inl e)
  then show ?thesis by simp
next
  case (Inr r)
  obtain msg d' where r: "r = (msg, d')" by (cases r)
  from remove_from_cart_InrD [OF Inr [unfolded r]] Inr r show ?thesis by auto
qed

lemma handle_get_cart:
  "handle d (GetCart uid new_id now) = d \<or>
   find_one (\<lambda>c. c_user_id c = uid) (carts d) = None \<and>
   handle d (GetCart uid new_id now) = d\<lparr>carts := carts d @ [new_cart new_id uid now]\<rparr>"
proof (cases "find_one (\<lambda>c. c_user_id c = uid) (carts d)")
  case None
  then show ?thesis by (simp add: get_cart_None)
next
  case (Some c)
  then show ?thesis by (simp add: get_cart_Some [OF Some])
qed

lemma handle_create_order:
  "handle d (CreateOrder shipping_address uid new_id now) = d \<or>
   (\<exists>cart. find_one (\<lambda>c. c_user_id c = uid) (carts d) = Some cart \<and> c_items cart \<noteq> [] \<and>
      handle d (CreateOrder shipping_address uid new_id now) =
        d\<lparr>orders := orders d @ [order_of shipping_address uid new_id now (products d) cart],
          carts := delete_one (\<lambda>c. c_user_id c = uid) (carts d)\<rparr>)"
proof (cases "find_one (\<lambda>c. c_user_id c = uid) (carts d)")
  case None
  then show ?thesis by (simp add: create_order_None)
next
  case (Some cart)
  show ?thesis
  proof (cases "c_items cart = []")
    case True
    then show ?thesis by (simp add: create_order_empty [OF Some])
  next
    case False
    with Some show ?thesis by (simp add: create_order_Some [OF Some False])
  qed
qed

lemma handle_process_payment:
  "handle d (ProcessPayment order_id uid new_id now) = d \<or>
   (\<exists>ord. find_one (\<lambda>ord. o_id ord = order_id \<and> o_user_id ord = uid) (orders d) = Some ord \<and>
      handle d (ProcessPayment order_id uid new_id now) =
        d\<lparr>payments := payments d @ [payment_of order_id new_id now ord],
          orders := update_one (\<lambda>ord. o_id ord = order_id) mark_paid (orders d)\<rparr>)"
proof (cases "find_one (\<lambda>ord. o_id ord = order_id \<and> o_user_id ord = uid) (orders d)")
  case None
  then show ?thesis by (simp add: process_payment_None)
next
  case (Some ord)
  have "(\<lambda>ord. ord\<lparr>o_status := ''paid''\<rparr>) = mark_paid"
    by (rule ext) (simp add: mark_paid_def)
  with Some show ?thesis by (simp add: process_payment_Some [OF Some])
qed

lemma handle_create_product:
  "handle d (CreateProduct product_data new_id now) = d \<or>
   handle d (CreateProduct product_data new_id now) =
     d\<lparr>products := products d @ [product_of product_data new_id now]\<rparr>"
  using create_product_cases [of product_data new_id now d] by auto

lemma handle_init_products:
  "handle d (InitProducts gen now) = d \<or>
   (\<exists>ps. handle d (InitProducts gen now) = d\<lparr>products := products d @ ps\<rparr>)"
proof (cases "count_documents (products d) > 0")
  case True
  then show ?thesis by (simp add: initialize_sample_products_def)
next
  case False
  then have "handle d (InitProducts gen now) =
      d\<lparr>products := products d @
           map (\<lambda>(i, product_data). product_of product_data (gen i) now)
             (enumerate 0 sample_products)\<rparr>"
    by (simp add: initialize_sample_products_def Let_def insert_many_def)
  then show ?thesis by blast
qed

section \<open>Invariants of the database\<close>

lemma carts_handle_other [simp]:
  "carts (db_after d (process_payment order_id uid new_id now d)) = carts d"
  "carts (db_after d (create_product product_data new_id' now' d)) = carts d"
  "carts (snd (initialize_sample_products gen now'' d)) = carts d"
  using handle_process_payment [of d order_id uid new_id now]
    handle_create_product [of d product_data new_id' now']
    handle_init_products [of d gen now'']
  by auto

lemma new_cart_total_ok: "cart_total_ok (new_cart new_id uid now)"
  by (simp add: cart_total_ok_def new_cart_def)

lemma added_cart_total_ok:
  "cart_sum (added_items item price cart) = Inr tot \<Longrightarrow>
     cart_total_ok (added_cart item price tot now cart)"
  by (simp add: cart_total_ok_def)

lemma removed_cart_total_ok:
  "cart_sum (removed_items product_id cart) = Inr tot \<Longrightarrow>
     cart_total_ok (removed_cart product_id tot now cart)"
  by (simp add: cart_total_ok_def)

lemma carts_total_ok_handle: "carts_total_ok d \<Longrightarrow> carts_total_ok (handle d r)"
proof (cases r)
  case (GetCart uid new_id now)
  assume "carts_total_ok d"
  with handle_get_cart [of d uid new_id now] show ?thesis
    unfolding GetCart by (auto simp: carts_total_ok_def new_cart_total_ok)
next
  case (AddToCart item uid new_id now)
  assume "carts_total_ok d"
  with handle_add_to_cart [of d item uid new_id now] show ?thesis
    unfolding AddToCart
    by (auto simp: carts_total_ok_def intro!: list_all_replace_one added_cart_total_ok)
next
  case (RemoveFromCart product_id uid now)
  assume "carts_total_ok d"
  with handle_remove_from_cart [of d product_id uid now] show ?thesis
    unfolding RemoveFromCart
    by (auto simp: carts_total_ok_def intro!: list_all_replace_one removed_cart_total_ok)
next
  case (CreateOrder address uid new_id now)
  assume "carts_total_ok d"
  with handle_create_order [of d address uid new_id now] show ?thesis
    unfolding CreateOrder by (auto simp: carts_total_ok_def intro!: list_all_delete_one)
qed (simp_all add: carts_total_ok_def)

lemma carts_total_ok_serve: "carts_total_ok d \<Longrightarrow> carts_total_ok (serve d rs)"
  unfolding serve_def by (induction rs arbitrary: d) (simp_all add: carts_total_ok_handle)

lemma carts_total_ok_empty_db: "carts_total_ok empty_db"
  by (simp add: carts_total_ok_def empty_db_def)

lemma cart_or_new_products_distinct:
  "carts_products_distinct d \<Longrightarrow> cart_products_distinct (cart_or_new uid new_id now d)"
proof (cases "find_one (\<lambda>c. c_user_id c = uid) (carts d)")
  case None
  then show ?thesis by (simp add: cart_or_new_def new_cart_def cart_products_distinct_def)
next
  case (Some c)
  assume "carts_products_distinct d"
  then have "list_all cart_products_distinct (carts d)"
    by (simp add: carts_products_distinct_def)
  with Some have "cart_products_distinct c" by (rule find_one_list_all)
  with Some show ?thesis by (simp add: cart_or_new_def)
qed

lemma carts_products_distinct_handle:
  "carts_products_distinct d \<Longrightarrow> carts_products_distinct (handle d r)"
proof (cases r)
  case (GetCart uid new_id now)
  assume "carts_products_distinct d"
  with handle_get_cart [of d uid new_id now] show ?thesis
    unfolding GetCart
    by (auto simp: carts_products_distinct_def cart_products_distinct_def new_cart_def)
next
  case (AddToCart item uid new_id now)
  assume inv: "carts_products_distinct d"
  from cart_or_new_products_distinct [OF inv, of uid new_id now]
  have "\<And>price tot. cart_products_distinct
      (added_cart item price tot now (cart_or_new uid new_id now d))"
    by (simp add: cart_products_distinct_def added_items_def distinct_add_item)
  with inv handle_add_to_cart [of d item uid new_id now] show ?thesis
    unfolding AddToCart
    by (auto simp: carts_products_distinct_def intro!: list_all_replace_one)
next
  case (RemoveFromCart product_id uid now)
  assume inv: "carts_products_distinct d"
  have "\<And>cart tot. find_one (\<lambda>c. c_user_id c = uid) (carts d) = Some cart \<Longrightarrow>
      cart_products_distinct (removed_cart product_id tot now cart)"
  proof -
    fix cart tot
    assume "find_one (\<lambda>c. c_user_id c = uid) (carts d) = Some cart"
    moreover from inv have "list_all cart_products_distinct (carts d)"
      by (simp add: carts_products_distinct_def)
    ultimately have "cart_products_distinct cart" by (rule find_one_list_all)
    then show "cart_products_distinct (removed_cart product_id tot now cart)"
      by (simp add: cart_products_distinct_def removed_items_def distinct_filter_items)
  qed
  with inv handle_remove_from_cart [of d product_id uid now] show ?thesis
    unfolding RemoveFromCart
    by (auto simp: carts_products_distinct_def intro!: list_all_replace_one)
next
  case (CreateOrder address uid new_id now)
  assume "carts_products_distinct d"
  with handle_create_order [of d address uid new_id now] show ?thesis
    unfolding CreateOrder by (auto simp: carts_products_distinct_def intro!: list_all_delete_one)
qed (simp_all add: carts_products_distinct_def)

lemma carts_products_distinct_serve:
  "carts_products_distinct d \<Longrightarrow> carts_products_distinct (serve d rs)"
  unfolding serve_def by (induction rs arbitrary: d) (simp_all add: carts_products_distinct_handle)

lemma carts_products_distinct_empty_db: "carts_products_distinct empty_db"
  by (simp add: carts_products_distinct_def empty_db_def)

lemma one_cart_per_user_replace_one:
  assumes "one_cart_per_user d" and "c_user_id c = uid"
  shows "one_cart_per_user (d\<lparr>carts := replace_one (\<lambda>c. c_user_id c = uid) c upsert (carts d)\<rparr>)"
  using assms by (simp add: one_cart_per_user_def map_user_id_replace_one)

lemma one_cart_per_user_handle: "one_cart_per_user d \<Longrightarrow> one_cart_per_user (handle d r)"
proof (cases r)
  case (GetCart uid new_id now)
  assume inv: "one_cart_per_user d"
  show ?thesis
  proof (cases "find_one (\<lambda>c. c_user_id c = uid) (carts d)")
    case None
    then have "uid \<notin> c_user_id ` set (carts d)"
      by (simp add: find_one_key_None_iff)
    with inv None show ?thesis
      unfolding GetCart by (simp add: one_cart_per_user_def get_cart_None new_cart_def)
  next
    case (Some c)
    with inv show ?thesis
      unfolding GetCart by (simp add: get_cart_Some [OF Some])
  qed
next
  case (AddToCart item uid new_id now)
  assume "one_cart_per_user d"
  with handle_add_to_cart [of d item uid new_id now] show ?thesis
    unfolding AddToCart by (auto intro!: one_cart_per_user_replace_one)
next
  case (RemoveFromCart product_id uid now)
  assume inv: "one_cart_per_user d"
  consider "handle d (RemoveFromCart product_id uid now) = d"
    | cart tot where "find_one (\<lambda>c. c_user_id c = uid) (carts d) = Some cart"
        "handle d (RemoveFromCart product_id uid now) =
           d\<lparr>carts := replace_one (\<lambda>c. c_user_id c = uid)
                         (removed_cart product_id tot now cart) False (carts d)\<rparr>"
    using handle_remove_from_cart [of d product_id uid now] by blast
  then show ?thesis
  proof cases
    case 1
    with inv show ?thesis unfolding RemoveFromCart by simp
  next
    case 2
    from find_one_user_id [OF 2(1)] inv show ?thesis
      unfolding RemoveFromCart 2(2) by (simp add: one_cart_per_user_replace_one)
  qed
next
  case (CreateOrder address uid new_id now)
  assume "one_cart_per_user d"
  with handle_create_order [of d address uid new_id now] show ?thesis
    unfolding CreateOrder by (auto simp: one_cart_per_user_def distinct_map_delete_one)
qed (simp_all add: one_cart_per_user_def)

lemma one_cart_per_user_serve: "one_cart_per_user d \<Longrightarrow> one_cart_per_user (serve d rs)"
  unfolding serve_def by (induction rs arbitrary: d) (simp_all add: one_cart_per_user_handle)

lemma one_cart_per_user_empty_db: "one_cart_per_user empty_db"
  by (simp add: one_cart_per_user_def empty_db_def)

lemma orders_handle:
  "orders (handle d r) = orders d \<or>
   (\<exists>ord. orders (handle d r) = orders d @ [ord] \<and> o_status ord = ''pending'') \<or>
   (\<exists>order_id uid new_id now. r = ProcessPayment order_id uid new_id now \<and>
      orders (handle d r) = update_one (\<lambda>ord. o_id ord = order_id) mark_paid (orders d))"
proof (cases r)
  case (GetCart uid new_id now)
  with handle_get_cart [of d uid new_id now] show ?thesis by auto
next
  case (AddToCart item uid new_id now)
  with handle_add_to_cart [of d item uid new_id now] show ?thesis by auto
next
  case (RemoveFromCart product_id uid now)
  with handle_remove_from_cart [of d product_id uid now] show ?thesis by auto
next
  case (CreateOrder address uid new_id now)
  with handle_create_order [of d address uid new_id now] show ?thesis
    by (auto simp: order_of_def)
next
  case (ProcessPayment order_id uid new_id now)
  with handle_process_payment [of d order_id uid new_id now] show ?thesis by auto
next
  case (CreateProduct product_data new_id now)
  with handle_create_product [of d product_data new_id now] show ?thesis by auto
next
  case (InitProducts gen now)
  with handle_init_products [of d gen now] show ?thesis by auto
qed

lemma order_handle_nth:
  assumes i: "i < length (orders d)"
  shows "i < length (orders (handle d r)) \<and>
         (orders (handle d r) ! i = orders d ! i \<or>
          (\<exists>order_id uid new_id now. r = ProcessPayment order_id uid new_id now) \<and>
          orders (handle d r) ! i = mark_paid (orders d ! i))"
proof -
  consider (same) "orders (handle d r) = orders d"
    | (new) ord where "orders (handle d r) = orders d @ [ord]"
    | (paid) order_id uid new_id now where "r = ProcessPayment order_id uid new_id now"
        "orders (handle d r) = update_one (\<lambda>ord. o_id ord = order_id) mark_paid (orders d)"
    using orders_handle [of d r] by blast
  then show ?thesis
  proof cases
    case same
    with i show ?thesis by simp
  next
    case new
    with i show ?thesis by (simp add: nth_append)
  next
    case paid
    from nth_update_one [OF i, of "\<lambda>ord. o_id ord = order_id" mark_paid] paid i
    show ?thesis by auto
  qed
qed

lemma orders_status_ok_handle: "orders_status_ok d \<Longrightarrow> orders_status_ok (handle d r)"
proof -
  assume ok: "orders_status_ok d"
  consider (same) "orders (handle d r) = orders d"
    | (new) ord where "orders (handle d r) = orders d @ [ord]" "o_status ord = ''pending''"
    | (paid) order_id where
        "orders (handle d r) = update_one (\<lambda>ord. o_id ord = order_id) mark_paid (orders d)"
    using orders_handle [of d r] by blast
  then show ?thesis
  proof cases
    case same
    with ok show ?thesis by (simp add: orders_status_ok_def)
  next
    case new
    with ok show ?thesis by (simp add: orders_status_ok_def status_ok_def)
  next
    case paid
    have "list_all status_ok (update_one (\<lambda>ord. o_id ord = order_id) mark_paid (orders d))"
      using ok unfolding orders_status_ok_def
      by (rule list_all_update_one) (simp add: status_ok_def mark_paid_def)
    with paid show ?thesis by (simp add: orders_status_ok_def)
  qed
qed

lemma paid_stays_paid_handle:
  assumes "i < length (orders d)" and "o_status (orders d ! i) = ''paid''"
  shows "i < length (orders (handle d r)) \<and> o_status (orders (handle d r) ! i) = ''paid''"
  using order_handle_nth [OF assms(1), of r] assms(2)
  by (auto simp: mark_paid_def)

lemma paid_stays_paid_serve:
  "i < length (orders d) \<Longrightarrow> o_status (orders d ! i) = ''paid'' \<Longrightarrow>
     i < length (orders (serve d rs)) \<and> o_status (orders (serve d rs) ! i) = ''paid''"
  unfolding serve_def
proof (induction rs arbitrary: d)
  case Nil
  then show ?case by simp
next
  case (Cons r rs)
  from paid_stays_paid_handle [OF Cons.prems, of r] Cons.IH [of "handle d r"]
  show ?case by simp
qed

lemma orders_status_ok_serve: "orders_status_ok d \<Longrightarrow> orders_status_ok (serve d rs)"
  unfolding serve_def by (induction rs arbitrary: d) (simp_all add: orders_status_ok_handle)

lemma orders_status_ok_empty_db: "orders_status_ok empty_db"
  by (simp add: orders_status_ok_def empty_db_def)

section \<open>Lemmas for the claims\<close>

lemma checkout_clears_cart_aux:
  assumes inv: "one_cart_per_user d"
    and ok: "create_order shipping_address uid new_id now d = Inr (ord, d')"
  shows "find_one (\<lambda>c. c_user_id c = uid) (carts d') = None \<and>
         (\<exists>c d''. get_cart uid new_id' now' d' = Inr (c, d'') \<and> c_items c = [] \<and> c_total c = Fin 0 \<and>
            c_id c = new_id' \<and> find_one (\<lambda>c. c_user_id c = uid) (carts d'') = Some c)"
proof -
  from create_order_InrD [OF ok]
  have d': "carts d' = delete_one (\<lambda>c. c_user_id c = uid) (carts d)" by auto
  have n: "find_one (\<lambda>c. c_user_id c = uid) (carts d') = None"
    unfolding d' using inv by (simp add: one_cart_per_user_def find_one_delete_one)
  have "find_one (\<lambda>c. c_user_id c = uid) (carts d' @ [new_cart new_id' uid now']) =
      Some (new_cart new_id' uid now')"
    using find_one_append_None [OF n] by (simp add: new_cart_def)
  with n show ?thesis
    by (simp add: get_cart_None [OF n] new_cart_def)
qed

lemma order_items_of_fields:
  "map (\<lambda>oi. (oi_product_id oi, oi_quantity oi, oi_price oi)) (order_items_of ps its) =
   map (\<lambda>ci. (ci_product_id ci, ci_quantity ci, ci_price ci))
     (filter (\<lambda>ci. ci_product_id ci \<in> p_id ` set ps) its)"
proof (induction its)
  case Nil
  then show ?case by simp
next
  case (Cons ci its)
  show ?case
  proof (cases "find_one (\<lambda>p. p_id p = ci_product_id ci) ps")
    case None
    then have "ci_product_id ci \<notin> p_id ` set ps"
      by (simp add: find_one_key_None_iff)
    with None Cons.IH show ?thesis by simp
  next
    case (Some p)
    have "ci_product_id ci \<in> p_id ` set ps"
      using Some find_one_key_None_iff [of p_id "ci_product_id ci" ps] by simp
    with Some Cons.IH show ?thesis by simp
  qed
qed

lemma order_items_of_names:
  "oi \<in> set (order_items_of ps its) \<Longrightarrow>
     \<exists>p. find_one (\<lambda>p. p_id p = oi_product_id oi) ps = Some p \<and> oi_product_name oi = p_name p"
  by (induction its) (auto split: option.splits)

lemma order_items_of_deleted:
  "\<forall>ci\<in>set its. ci_product_id ci \<notin> p_id ` set ps \<Longrightarrow> order_items_of ps its = []"
proof (induction its)
  case Nil
  then show ?case by simp
next
  case (Cons ci its)
  then have "find_one (\<lambda>p. p_id p = ci_product_id ci) ps = None"
    by (simp add: find_one_key_None_iff)
  with Cons show ?case by simp
qed

lemma length_sample_products: "length sample_products = 8"
  by (simp add: sample_products_def)

lemma str_nat_8: "str_nat 8 = ''8''"
  by (simp add: str_nat.simps [of 8])

lemma initialize_nonempty:
  "products d \<noteq> [] \<Longrightarrow> initialize_sample_products gen now d = (''Products already initialized'', d)"
  by (simp add: initialize_sample_products_def count_documents_def)

lemma initialize_empty:
  assumes "products d = []"
  shows "initialize_sample_products gen now d =
           (''Initialized 8 sample products'',
            d\<lparr>products := map (\<lambda>(i, product_data). product_of product_data (gen i) now)
                            (enumerate 0 sample_products)\<rparr>)"
  using assms
  by (simp add: initialize_sample_products_def count_documents_def Let_def insert_many_def
      length_sample_products str_nat_8)

lemma seeded_names:
  "map p_name (map (\<lambda>(i, product_data). product_of product_data (gen i) now) (enumerate n pds)) =
     map pc_name pds"
  by (induction pds arbitrary: n) (simp_all add: product_of_def)

lemma seeded_nonempty:
  "map (\<lambda>(i, product_data). product_of product_data (gen i) now) (enumerate 0 sample_products) \<noteq> []"
proof
  assume "map (\<lambda>(i, product_data). product_of product_data (gen i) now)
      (enumerate 0 sample_products) = []"
  then have "length (map (\<lambda>(i, product_data). product_of product_data (gen i) now)
      (enumerate 0 sample_products)) = 0"
    by (simp only: list.size)
  then show False by (simp add: length_sample_products)
qed

lemma encodable_Nil [simp]: "encodable []"
  by (simp add: encodable_def)

lemma encodable_append [simp]:
  "encodable (its @ [item]) \<longleftrightarrow> encodable its \<and> int64 (ci_quantity item)"
  by (simp add: encodable_def)

lemma encodable_split:
  "encodable its \<longleftrightarrow>
     encodable (filter (\<lambda>i. ci_product_id i = pid) its) \<and>
     encodable (filter (\<lambda>i. ci_product_id i \<noteq> pid) its)"
  unfolding encodable_def list_all_iff by auto

lemma cart_or_new_Some:
  "find_one (\<lambda>c. c_user_id c = uid) (carts d) = Some cart \<Longrightarrow> cart_or_new uid new_id now d = cart"
  by (simp add: cart_or_new_def)

lemma cart_or_new_None:
  "find_one (\<lambda>c. c_user_id c = uid) (carts d) = None \<Longrightarrow>
     cart_or_new uid new_id now d = new_cart new_id uid now"
  by (simp add: cart_or_new_def)

lemma add_to_cart_existing:
  assumes p: "find_one (\<lambda>p. p_id p = pid) (products d) = Some product"
    and c: "find_one (\<lambda>c. c_user_id c = uid) (carts d) = Some cart"
    and i: "it \<in> set (c_items cart)" "ci_product_id it = pid"
    and dist: "cart_products_distinct cart"
    and ok: "add_to_cart \<lparr>req_product_id = pid, req_quantity = qty\<rparr> uid new_id now d = Inr (msg, d')"
  shows "\<exists>cart'.
           msg = ''Item added to cart'' \<and>
           find_one (\<lambda>c. c_user_id c = uid) (carts d') = Some cart' \<and>
           filter (\<lambda>i. ci_product_id i = pid) (c_items cart') =
             [\<lparr>ci_product_id = pid, ci_quantity = ci_quantity it + qty, ci_price = ci_price it\<rparr>] \<and>
           filter (\<lambda>i. ci_product_id i \<noteq> pid) (c_items cart') =
             filter (\<lambda>i. ci_product_id i \<noteq> pid) (c_items cart) \<and>
           length (c_items cart') = length (c_items cart) \<and>
           cart_products_distinct cart'"
proof -
  let ?item = "\<lparr>req_product_id = pid, req_quantity = qty\<rparr>"
  from add_to_cart_InrD [OF ok] p obtain tot where
    m: "msg = ''Item added to cart''"
    and d': "d' = d\<lparr>carts := replace_one (\<lambda>c. c_user_id c = uid)
                 (added_cart ?item (p_price product) tot now (cart_or_new uid new_id now d))
                 True (carts d)\<rparr>"
    by auto
  let ?cart' = "added_cart ?item (p_price product) tot now cart"
  have f: "find_one (\<lambda>c. c_user_id c = uid) (carts d') = Some ?cart'"
    using find_one_user_id [OF c]
    by (simp add: d' find_one_replace_one cart_or_new_Some [OF c])
  have ds: "distinct (map ci_product_id (c_items cart))"
    using dist by (simp add: cart_products_distinct_def)
  have its: "c_items ?cart' = add_item pid qty (p_price product) (c_items cart)"
    by (simp add: added_items_def)
  have it: "it\<lparr>ci_quantity := ci_quantity it + qty\<rparr> =
      \<lparr>ci_product_id = pid, ci_quantity = ci_quantity it + qty, ci_price = ci_price it\<rparr>"
    using i(2) by simp
  from add_item_existing [OF i ds, of qty "p_price product"] it
  have "filter (\<lambda>i. ci_product_id i = pid) (c_items ?cart') =
          [\<lparr>ci_product_id = pid, ci_quantity = ci_quantity it + qty, ci_price = ci_price it\<rparr>]"
    and "filter (\<lambda>i. ci_product_id i \<noteq> pid) (c_items ?cart') =
          filter (\<lambda>i. ci_product_id i \<noteq> pid) (c_items cart)"
    and "length (c_items ?cart') = length (c_items cart)"
    unfolding its by simp_all
  moreover have "cart_products_distinct ?cart'"
    unfolding cart_products_distinct_def its using ds by (rule distinct_add_item)
  ultimately show ?thesis using m f by blast
qed

lemma encodable_merged:
  assumes i: "it \<in> set its" "ci_product_id it = pid"
    and ds: "distinct (map ci_product_id its)"
  shows "encodable (add_item pid qty price its) \<longleftrightarrow>
           int64 (ci_quantity it + qty) \<and>
           encodable (filter (\<lambda>i. ci_product_id i \<noteq> pid) its)"
  using add_item_existing [OF i ds, of qty price]
    encodable_split [of "add_item pid qty price its" pid]
  by (simp add: encodable_def)

lemma add_to_cart_merged_cases:
  assumes p: "find_one (\<lambda>p. p_id p = pid) (products d) = Some product"
    and c: "find_one (\<lambda>c. c_user_id c = uid) (carts d) = Some cart"
    and i: "it \<in> set (c_items cart)" "ci_product_id it = pid"
    and dist: "cart_products_distinct cart"
  shows "int64 (ci_quantity it + qty) \<Longrightarrow> encodable (c_items cart) \<Longrightarrow>
           \<exists>d'. add_to_cart \<lparr>req_product_id = pid, req_quantity = qty\<rparr> uid new_id now d =
                  Inr (''Item added to cart'', d')"
    and "\<not> int64 (ci_quantity it + qty) \<Longrightarrow>
           add_to_cart \<lparr>req_product_id = pid, req_quantity = qty\<rparr> uid new_id now d =
             Inl OverflowError"
proof -
  let ?item = "\<lparr>req_product_id = pid, req_quantity = qty\<rparr>"
  have ds: "distinct (map ci_product_id (c_items cart))"
    using dist by (simp add: cart_products_distinct_def)
  have p': "find_one (\<lambda>p. p_id p = req_product_id ?item) (products d) = Some product"
    using p by simp
  have its: "added_items ?item (p_price product) (cart_or_new uid new_id now d) =
      add_item pid qty (p_price product) (c_items cart)"
    by (simp add: added_items_def cart_or_new_Some [OF c])
  note e = encodable_merged [OF i ds, of qty "p_price product"]
  show "\<exists>d'. add_to_cart ?item uid new_id now d = Inr (''Item added to cart'', d')"
    if "int64 (ci_quantity it + qty)" "encodable (c_items cart)"
  proof -
    from that(2) have "encodable (filter (\<lambda>i. ci_product_id i \<noteq> pid) (c_items cart))"
      using encodable_split [of "c_items cart" pid] by simp
    with that(1) e
    have "encodable (added_items ?item (p_price product) (cart_or_new uid new_id now d))"
      by (simp add: its)
    from add_to_cart_InrI [OF p' this] show ?thesis by blast
  qed
  show "add_to_cart ?item uid new_id now d = Inl OverflowError"
    if "\<not> int64 (ci_quantity it + qty)"
  proof -
    from that e
    have "\<not> encodable (added_items ?item (p_price product) (cart_or_new uid new_id now d))"
      by (simp add: its)
    with p' show ?thesis by (rule add_to_cart_overflow)
  qed
qed

lemma add_to_cart_no_cart:
  assumes p: "find_one (\<lambda>p. p_id p = pid) (products d) = Some product"
    and c: "find_one (\<lambda>c. c_user_id c = uid) (carts d) = None"
    and q: "int64 qty"
  shows "\<exists>tot. add_to_cart \<lparr>req_product_id = pid, req_quantity = qty\<rparr> uid new_id now d =
           Inr (''Item added to cart'',
                d\<lparr>carts := carts d @
                   [\<lparr>c_id = new_id, c_user_id = uid,
                     c_items = [\<lparr>ci_product_id = pid, ci_quantity = qty,
                                 ci_price = p_price product\<rparr>],
                     c_total = tot, c_updated_at = now\<rparr>]\<rparr>)"
proof -
  let ?item = "\<lparr>req_product_id = pid, req_quantity = qty\<rparr>"
  have p': "find_one (\<lambda>p. p_id p = req_product_id ?item) (products d) = Some product"
    using p by simp
  have its: "added_items ?item (p_price product) (cart_or_new uid new_id now d) =
      [\<lparr>ci_product_id = pid, ci_quantity = qty, ci_price = p_price product\<rparr>]"
    by (simp add: added_items_def cart_or_new_None [OF c] new_cart_def add_item_def)
  have "encodable (added_items ?item (p_price product) (cart_or_new uid new_id now d))"
    using q by (simp add: its encodable_def)
  from add_to_cart_InrI [OF p' this] obtain tot where
    r: "add_to_cart ?item uid new_id now d =
      Inr (''Item added to cart'',
           d\<lparr>carts := replace_one (\<lambda>c. c_user_id c = uid)
                  (added_cart ?item (p_price product) tot now (cart_or_new uid new_id now d))
                  True (carts d)\<rparr>)"
    by blast
  have "added_cart ?item (p_price product) tot now (cart_or_new uid new_id now d) =
      \<lparr>c_id = new_id, c_user_id = uid,
       c_items = [\<lparr>ci_product_id = pid, ci_quantity = qty, ci_price = p_price product\<rparr>],
       c_total = tot, c_updated_at = now\<rparr>"
    using its by (simp add: added_cart_def cart_or_new_None [OF c] new_cart_def)
  with r have "add_to_cart ?item uid new_id now d =
      Inr (''Item added to cart'',
           d\<lparr>carts := carts d @
              [\<lparr>c_id = new_id, c_user_id = uid,
                c_items = [\<lparr>ci_product_id = pid, ci_quantity = qty,
                            ci_price = p_price product\<rparr>],
                c_total = tot, c_updated_at = now\<rparr>]\<rparr>)"
    by (simp add: replace_one_append [OF c])
  then show ?thesis by (rule exI)
qed

lemma add_to_cart_absent:
  assumes p: "find_one (\<lambda>p. p_id p = pid) (products d) = Some product"
    and c: "find_one (\<lambda>c. c_user_id c = uid) (carts d) = Some cart"
    and a: "pid \<notin> ci_product_id ` set (c_items cart)"
  shows "int64 qty \<Longrightarrow> encodable (c_items cart) \<Longrightarrow>
           \<exists>d'. add_to_cart \<lparr>req_product_id = pid, req_quantity = qty\<rparr> uid new_id now d =
                  Inr (''Item added to cart'', d')"
    and "add_to_cart \<lparr>req_product_id = pid, req_quantity = qty\<rparr> uid new_id now d =
           Inr (msg, d') \<Longrightarrow>
         \<exists>cart'. find_one (\<lambda>c. c_user_id c = uid) (carts d') = Some cart' \<and>
           c_items cart' = c_items cart @
             [\<lparr>ci_product_id = pid, ci_quantity = qty, ci_price = p_price product\<rparr>]"
proof -
  let ?item = "\<lparr>req_product_id = pid, req_quantity = qty\<rparr>"
  have p': "find_one (\<lambda>p. p_id p = req_product_id ?item) (products d) = Some product"
    using p by simp
  have its: "added_items ?item (p_price product) (cart_or_new uid new_id now d) =
      c_items cart @ [\<lparr>ci_product_id = pid, ci_quantity = qty, ci_price = p_price product\<rparr>]"
    by (simp add: added_items_def cart_or_new_Some [OF c] add_item_absent [OF a])
  show "\<exists>d'. add_to_cart ?item uid new_id now d = Inr (''Item added to cart'', d')"
    if "int64 qty" "encodable (c_items cart)"
  proof -
    from that
    have "encodable (added_items ?item (p_price product) (cart_or_new uid new_id now d))"
      by (simp add: its)
    from add_to_cart_InrI [OF p' this] show ?thesis by blast
  qed
  show "\<exists>cart'. find_one (\<lambda>c. c_user_id c = uid) (carts d') = Some cart' \<and>
           c_items cart' = c_items cart @
             [\<lparr>ci_product_id = pid, ci_quantity = qty, ci_price = p_price product\<rparr>]"
    if ok: "add_to_cart ?item uid new_id now d = Inr (msg, d')"
  proof -
    from add_to_cart_InrD [OF ok] p obtain tot where
      d': "d' = d\<lparr>carts := replace_one (\<lambda>c. c_user_id c = uid)
                 (added_cart ?item (p_price product) tot now (cart_or_new uid new_id now d))
                 True (carts d)\<rparr>"
      by auto
    have "find_one (\<lambda>c. c_user_id c = uid) (carts d') =
        Some (added_cart ?item (p_price product) tot now (cart_or_new uid new_id now d))"
      by (simp add: d' find_one_replace_one)
    then show ?thesis using its by simp
  qed
qed

lemma remove_absent_aux:
  assumes c: "find_one (\<lambda>c. c_user_id c = uid) (carts d) = Some cart"
    and a: "pid \<notin> ci_product_id ` set (c_items cart)"
    and t: "cart_total_ok cart"
  shows "remove_from_cart pid uid now d =
           Inr (''Item removed from cart'',
                d\<lparr>carts := replace_one (\<lambda>c. c_user_id c = uid) (cart\<lparr>c_updated_at := now\<rparr>) False
                              (carts d)\<rparr>) \<and>
         find_one (\<lambda>c. c_user_id c = uid)
           (replace_one (\<lambda>c. c_user_id c = uid) (cart\<lparr>c_updated_at := now\<rparr>) False (carts d)) =
           Some (cart\<lparr>c_updated_at := now\<rparr>)"
proof -
  have i: "removed_items pid cart = c_items cart"
    by (simp add: removed_items_def filter_absent [OF a])
  have s: "cart_sum (removed_items pid cart) = Inr (c_total cart)"
    using t by (simp add: i cart_total_ok_def)
  have r: "removed_cart pid (c_total cart) now cart = cart\<lparr>c_updated_at := now\<rparr>"
    by (simp add: removed_cart_def i)
  have u: "c_user_id cart = uid"
    using c by (rule find_one_user_id)
  show ?thesis
    using c u by (simp add: remove_from_cart_found [OF c] s r find_one_replace_one)
qed

lemma find_one_cart_after_add:
  assumes "add_to_cart item uid new_id now d = Inr (msg, d')"
  shows "\<exists>c'. find_one (\<lambda>c. c_user_id c = uid) (carts d') = Some c' \<and> cart_total_ok c'"
proof -
  from assms obtain product tot where
    "find_one (\<lambda>p. p_id p = req_product_id item) (products d) = Some product"
    and s: "cart_sum (added_items item (p_price product) (cart_or_new uid new_id now d)) = Inr tot"
    and "encodable (added_items item (p_price product) (cart_or_new uid new_id now d))"
    and "msg = ''Item added to cart''"
    and d': "d' = d\<lparr>carts := replace_one (\<lambda>c. c_user_id c = uid)
                 (added_cart item (p_price product) tot now (cart_or_new uid new_id now d))
                 True (carts d)\<rparr>"
    by (rule add_to_cart_InrE)
  from added_cart_total_ok [OF s, of now]
  show ?thesis by (simp add: d' find_one_replace_one)
qed

lemma find_one_cart_after_remove:
  assumes "remove_from_cart product_id uid now d = Inr (msg, d')"
  shows "\<exists>c'. find_one (\<lambda>c. c_user_id c = uid) (carts d') = Some c' \<and> cart_total_ok c'"
proof -
  from assms obtain cart tot where
    c: "find_one (\<lambda>c. c_user_id c = uid) (carts d) = Some cart"
    and s: "cart_sum (removed_items product_id cart) = Inr tot"
    and "msg = ''Item removed from cart''"
    and d': "d' = d\<lparr>carts := replace_one (\<lambda>c. c_user_id c = uid)
                 (removed_cart product_id tot now cart) False (carts d)\<rparr>"
    by (rule remove_from_cart_InrE)
  have u: "c_user_id cart = uid" using c by (rule find_one_user_id)
  have "find_one (\<lambda>c. c_user_id c = uid) (carts d') = Some (removed_cart product_id tot now cart)"
    using c u by (simp add: d' find_one_replace_one)
  with removed_cart_total_ok [OF s, of now] show ?thesis by simp
qed

lemmas example_defs =
  pen_def ink_def shop_def shop_cart_def line_def add_req_def two_adds_def serve_def
  pen_data_def first_requests_def oline_def shop_order_def empty_db_def
  shop_payment_def paid_shop_def huge_data_def huge_requests_def
  get_cart_def add_to_cart_def remove_from_cart_def create_order_def process_payment_def
  create_product_def product_of_def payment_of_def
  new_cart_def add_item_def cart_sum_def insert_one_def encodable_def int64_def Let_def

lemmas float_evals =
  float_mul_int_def float_of_int_0 float_of_int_1 float_of_int_numeral float_of_int_neg_numeral
  float_of_int_minus_1 round64_minus_1 round64_1 round64_numeral round64_neg_numeral

section \<open>The claims\<close>

text \<open>
  C1, as stated, fails. After the four requests that create two products at the price
  \<open>2 ^ 1023\<close> and add two of the first and minus two of the second to the cart of a
  user, the products of the line items are the infinities, their sum is NaN, and NaN is
  the total that is stored: it is not equal to the recomputed sum, which is NaN too,
  nor is it the sum of the prices times the quantities, which is 0.
\<close>

theorem stored_total_is_nan:
  "find_one (\<lambda>c. c_user_id c = ''u1'') (carts (serve empty_db huge_requests)) =
     Some (shop_cart [line ''P1'' 2 huge, line ''P2'' (- 2) huge] NaN 2) \<and>
   cart_sum [line ''P1'' 2 huge, line ''P2'' (- 2) huge] = Inr NaN \<and>
   \<not> float_eq (c_total (shop_cart [line ''P1'' 2 huge, line ''P2'' (- 2) huge] NaN 2)) NaN"
  by (simp add: example_defs huge_times_2 huge_times_minus_2)

text \<open>
  C1, amended. After every sequence of requests the stored total of every cart is the
  float that \<^verbatim>\<open>sum(item.price * item.quantity for item in cart.items)\<close> computes over its
  stored line items, every product and every partial sum rounded to a double or
  overflowing to an infinity or NaN; it compares equal to that sum unless it is NaN. The
  property is kept by every request, it holds of the cart that \<open>find_one\<close> returns for a
  user after any sequence, and a successful \<open>add_to_cart\<close> or \<open>remove_from_cart\<close> leaves
  the user's cart with it whatever the state before. A cart created by \<open>get_cart\<close> has
  no items and total 0.
\<close>

theorem cart_total_invariant:
  "carts_total_ok (serve empty_db rs) \<and>
   (carts_total_ok d \<longrightarrow> carts_total_ok (serve d rs)) \<and>
   (carts_total_ok d \<longrightarrow> find_one (\<lambda>c. c_user_id c = uid) (carts (serve d rs)) = Some c \<longrightarrow>
      (\<exists>t. cart_sum (c_items c) = Inr t \<and> c_total c = t \<and>
         (t \<noteq> NaN \<longrightarrow> float_eq (c_total c) t))) \<and>
   (add_to_cart item uid new_id now d = Inr (msg, d') \<longrightarrow>
      (\<exists>c'. find_one (\<lambda>c. c_user_id c = uid) (carts d') = Some c' \<and>
         cart_sum (c_items c') = Inr (c_total c'))) \<and>
   (remove_from_cart product_id uid now d = Inr (msg, d') \<longrightarrow>
      (\<exists>c'. find_one (\<lambda>c. c_user_id c = uid) (carts d') = Some c' \<and>
         cart_sum (c_items c') = Inr (c_total c'))) \<and>
   (find_one (\<lambda>c. c_user_id c = uid) (carts d) = None \<longrightarrow>
      (\<exists>c' d''. get_cart uid new_id now d = Inr (c', d'') \<and> c_items c' = [] \<and>
         c_total c' = Fin 0 \<and> find_one (\<lambda>c. c_user_id c = uid) (carts d'') = Some c'))"
proof (intro conjI impI)
  show "carts_total_ok (serve empty_db rs)"
    using carts_total_ok_empty_db by (rule carts_total_ok_serve)
next
  assume "carts_total_ok d"
  then show "carts_total_ok (serve d rs)" by (rule carts_total_ok_serve)
next
  assume "carts_total_ok d" and f: "find_one (\<lambda>c. c_user_id c = uid) (carts (serve d rs)) = Some c"
  then have "list_all cart_total_ok (carts (serve d rs))"
    using carts_total_ok_serve [of d rs] by (simp add: carts_total_ok_def)
  with f have "cart_total_ok c" by (rule find_one_list_all)
  then show "\<exists>t. cart_sum (c_items c) = Inr t \<and> c_total c = t \<and>
         (t \<noteq> NaN \<longrightarrow> float_eq (c_total c) t)"
    by (simp add: cart_total_ok_def float_eq_refl)
next
  assume "add_to_cart item uid new_id now d = Inr (msg, d')"
  from find_one_cart_after_add [OF this]
  show "\<exists>c'. find_one (\<lambda>c. c_user_id c = uid) (carts d') = Some c' \<and>
         cart_sum (c_items c') = Inr (c_total c')"
    by (simp add: cart_total_ok_def)
next
  assume "remove_from_cart product_id uid now d = Inr (msg, d')"
  from find_one_cart_after_remove [OF this]
  show "\<exists>c'. find_one (\<lambda>c. c_user_id c = uid) (carts d') = Some c' \<and>
         cart_sum (c_items c') = Inr (c_total c')"
    by (simp add: cart_total_ok_def)
next
  assume n: "find_one (\<lambda>c. c_user_id c = uid) (carts d) = None"
  have "find_one (\<lambda>c. c_user_id c = uid) (carts d @ [new_cart new_id uid now]) =
      Some (new_cart new_id uid now)"
    using find_one_append_None [OF n] by (simp add: new_cart_def)
  then show "\<exists>c' d''. get_cart uid new_id now d = Inr (c', d'') \<and> c_items c' = [] \<and>
         c_total c' = Fin 0 \<and> find_one (\<lambda>c. c_user_id c = uid) (carts d'') = Some c'"
    by (simp add: get_cart_None [OF n] new_cart_def)
qed

theorem cart_total_invariant_witness:
  "carts_total_ok shop \<and> carts_total_ok (serve shop two_adds) \<and>
   find_one (\<lambda>c. c_user_id c = ''u1'') (carts (serve shop two_adds)) =
     Some (shop_cart [line ''P1'' 2 (Fin 10), line ''P2'' 1 (Fin 5)] (Fin 25) 2) \<and>
   cart_sum [line ''P1'' 2 (Fin 10), line ''P2'' 1 (Fin 5)] = Inr (Fin 25) \<and>
   float_eq (Fin 25) (Fin 25) \<and>
   add_to_cart (add_req ''P1'' 2) ''u1'' ''c1'' 1 shop =
     Inr (''Item added to cart'', shop\<lparr>carts := [shop_cart [line ''P1'' 2 (Fin 10)] (Fin 20) 1]\<rparr>) \<and>
   remove_from_cart ''P2'' ''u1'' 3 (serve shop two_adds) =
     Inr (''Item removed from cart'',
          shop\<lparr>carts := [shop_cart [line ''P1'' 2 (Fin 10)] (Fin 20) 3]\<rparr>) \<and>
   find_one (\<lambda>c. c_user_id c = ''u1'') (carts shop) = None \<and>
   get_cart ''u1'' ''c1'' 1 shop =
     Inr (shop_cart [] (Fin 0) 1, shop\<lparr>carts := [shop_cart [] (Fin 0) 1]\<rparr>)"
proof -
  have h1: "carts_total_ok shop"
    by (simp add: carts_total_ok_def shop_def)
  have h2: "find_one (\<lambda>c. c_user_id c = ''u1'') (carts (serve shop two_adds)) =
      Some (shop_cart [line ''P1'' 2 (Fin 10), line ''P2'' 1 (Fin 5)] (Fin 25) 2)"
    by (simp add: example_defs float_evals)
  have h3: "add_to_cart (add_req ''P1'' 2) ''u1'' ''c1'' 1 shop =
      Inr (''Item added to cart'', shop\<lparr>carts := [shop_cart [line ''P1'' 2 (Fin 10)] (Fin 20) 1]\<rparr>)"
    by (simp add: example_defs float_evals)
  have h4: "remove_from_cart ''P2'' ''u1'' 3 (serve shop two_adds) =
      Inr (''Item removed from cart'',
           shop\<lparr>carts := [shop_cart [line ''P1'' 2 (Fin 10)] (Fin 20) 3]\<rparr>)"
    by (simp add: example_defs float_evals)
  have h5: "find_one (\<lambda>c. c_user_id c = ''u1'') (carts shop) = None"
    by (simp add: shop_def)
  have h6: "get_cart ''u1'' ''c1'' 1 shop =
      Inr (shop_cart [] (Fin 0) 1, shop\<lparr>carts := [shop_cart [] (Fin 0) 1]\<rparr>)"
    by (simp add: example_defs)
  have h7: "cart_sum [line ''P1'' 2 (Fin 10), line ''P2'' 1 (Fin 5)] = Inr (Fin 25)"
    by (simp add: example_defs float_evals)
  from cart_total_invariant [of two_adds shop "''u1''"
      "shop_cart [line ''P1'' 2 (Fin 10), line ''P2'' 1 (Fin 5)] (Fin 25) 2" "add_req ''P1'' 2"
      "''c1''" 1 "''Item added to cart''"
      "shop\<lparr>carts := [shop_cart [line ''P1'' 2 (Fin 10)] (Fin 20) 1]\<rparr>" "''P2''"]
    cart_total_invariant [of "[]" "serve shop two_adds" "''u1''"
      "shop_cart [line ''P1'' 2 (Fin 10), line ''P2'' 1 (Fin 5)] (Fin 25) 2" "add_req ''P1'' 2"
      "''c1''" 3 "''Item removed from cart''"
      "shop\<lparr>carts := [shop_cart [line ''P1'' 2 (Fin 10)] (Fin 20) 3]\<rparr>" "''P2''"]
    h1 h2 h3 h4 h5 h6 h7
  show ?thesis by simp
qed

text \<open>
  C2, as stated, fails. For a cart with two pens, \<open>add_to_cart\<close> for the pen with the
  quantity \<open>2 ^ 63\<close> raises \<^verbatim>\<open>OverflowError\<close> when the cart is encoded for the store,
  and the cart keeps its line item of quantity 2.
\<close>

theorem add_overflows:
  "add_to_cart (add_req ''P1'' (2 ^ 63)) ''u1'' ''c2'' 2
     (shop\<lparr>carts := [shop_cart [line ''P1'' 2 (Fin 10)] (Fin 20) 1]\<rparr>) = Inl OverflowError \<and>
   handle (shop\<lparr>carts := [shop_cart [line ''P1'' 2 (Fin 10)] (Fin 20) 1]\<rparr>)
     (AddToCart (add_req ''P1'' (2 ^ 63)) ''u1'' ''c2'' 2) =
     shop\<lparr>carts := [shop_cart [line ''P1'' 2 (Fin 10)] (Fin 20) 1]\<rparr>"
proof -
  let ?d = "shop\<lparr>carts := [shop_cart [line ''P1'' 2 (Fin 10)] (Fin 20) 1]\<rparr>"
  have p: "find_one (\<lambda>p. p_id p = req_product_id (add_req ''P1'' (2 ^ 63))) (products ?d) =
      Some (pen (Fin 10))"
    by (simp add: example_defs)
  have "\<not> encodable (added_items (add_req ''P1'' (2 ^ 63)) (p_price (pen (Fin 10)))
      (cart_or_new ''u1'' ''c2'' 2 ?d))"
    by (simp add: example_defs added_items_def cart_or_new_def)
  with p have "add_to_cart (add_req ''P1'' (2 ^ 63)) ''u1'' ''c2'' 2 ?d = Inl OverflowError"
    by (rule add_to_cart_overflow)
  then show ?thesis by simp
qed

text \<open>
  C2, amended. When the product is in the catalog and the user's cart (with no product
  id twice) has a line item for it, a successful \<open>add_to_cart\<close> leaves a cart with
  exactly one line item for the product: the old one with the quantity raised by the
  requested amount and the price it had, whatever the catalog's price is now. The other
  line items and the number of line items are as before, and no product id appears
  twice. The request succeeds when the raised quantity and the quantities of the other
  line items are in the signed 64-bit range; when the raised quantity is outside it
  the request raises \<^verbatim>\<open>OverflowError\<close> and the database is unchanged. Every request
  keeps the carts free of duplicate product ids.
\<close>

theorem add_merges_line_item:
  "(find_one (\<lambda>p. p_id p = pid) (products d) = Some product \<longrightarrow>
    find_one (\<lambda>c. c_user_id c = uid) (carts d) = Some cart \<longrightarrow>
    it \<in> set (c_items cart) \<longrightarrow> ci_product_id it = pid \<longrightarrow> cart_products_distinct cart \<longrightarrow>
      (add_to_cart \<lparr>req_product_id = pid, req_quantity = qty\<rparr> uid new_id now d = Inr (msg, d') \<longrightarrow>
         (\<exists>cart'.
            msg = ''Item added to cart'' \<and>
            find_one (\<lambda>c. c_user_id c = uid) (carts d') = Some cart' \<and>
            filter (\<lambda>i. ci_product_id i = pid) (c_items cart') =
              [\<lparr>ci_product_id = pid, ci_quantity = ci_quantity it + qty, ci_price = ci_price it\<rparr>] \<and>
            filter (\<lambda>i. ci_product_id i \<noteq> pid) (c_items cart') =
              filter (\<lambda>i. ci_product_id i \<noteq> pid) (c_items cart) \<and>
            length (c_items cart') = length (c_items cart) \<and>
            cart_products_distinct cart')) \<and>
      (int64 (ci_quantity it + qty) \<longrightarrow> encodable (c_items cart) \<longrightarrow>
         (\<exists>d''. add_to_cart \<lparr>req_product_id = pid, req_quantity = qty\<rparr> uid new_id now d =
                  Inr (''Item added to cart'', d''))) \<and>
      (\<not> int64 (ci_quantity it + qty) \<longrightarrow>
         add_to_cart \<lparr>req_product_id = pid, req_quantity = qty\<rparr> uid new_id now d =
           Inl OverflowError \<and>
         handle d (AddToCart \<lparr>req_product_id = pid, req_quantity = qty\<rparr> uid new_id now) = d)) \<and>
   (carts_products_distinct d \<longrightarrow> carts_products_distinct (serve d rs)) \<and>
   carts_products_distinct (serve empty_db rs)"
proof (intro conjI impI)
  assume a: "find_one (\<lambda>p. p_id p = pid) (products d) = Some product"
    "find_one (\<lambda>c. c_user_id c = uid) (carts d) = Some cart"
    "it \<in> set (c_items cart)" "ci_product_id it = pid" "cart_products_distinct cart"
  show "\<exists>cart'.
            msg = ''Item added to cart'' \<and>
            find_one (\<lambda>c. c_user_id c = uid) (carts d') = Some cart' \<and>
            filter (\<lambda>i. ci_product_id i = pid) (c_items cart') =
              [\<lparr>ci_product_id = pid, ci_quantity = ci_quantity it + qty, ci_price = ci_price it\<rparr>] \<and>
            filter (\<lambda>i. ci_product_id i \<noteq> pid) (c_items cart') =
              filter (\<lambda>i. ci_product_id i \<noteq> pid) (c_items cart) \<and>
            length (c_items cart') = length (c_items cart) \<and>
            cart_products_distinct cart'"
    if "add_to_cart \<lparr>req_product_id = pid, req_quantity = qty\<rparr> uid new_id now d = Inr (msg, d')"
    using a that by (rule add_to_cart_existing)
  show "\<exists>d''. add_to_cart \<lparr>req_product_id = pid, req_quantity = qty\<rparr> uid new_id now d =
                  Inr (''Item added to cart'', d'')"
    if "int64 (ci_quantity it + qty)" "encodable (c_items cart)"
    using a that by (rule add_to_cart_merged_cases(1))
  show o: "add_to_cart \<lparr>req_product_id = pid, req_quantity = qty\<rparr> uid new_id now d =
           Inl OverflowError"
    if "\<not> int64 (ci_quantity it + qty)"
    using a that by (rule add_to_cart_merged_cases(2))
  show "handle d (AddToCart \<lparr>req_product_id = pid, req_quantity = qty\<rparr> uid new_id now) = d"
    if "\<not> int64 (ci_quantity it + qty)"
    using o [OF that] by simp
next
  assume "carts_products_distinct d"
  then show "carts_products_distinct (serve d rs)" by (rule carts_products_distinct_serve)
next
  show "carts_products_distinct (serve empty_db rs)"
    using carts_products_distinct_empty_db by (rule carts_products_distinct_serve)
qed

theorem add_merges_line_item_witness:
  "find_one (\<lambda>p. p_id p = ''P1'') (products (shop\<lparr>products := [pen (Fin 12), ink],
      carts := [shop_cart [line ''P1'' 2 (Fin 10)] (Fin 20) 1]\<rparr>)) = Some (pen (Fin 12)) \<and>
   find_one (\<lambda>c. c_user_id c = ''u1'') (carts (shop\<lparr>products := [pen (Fin 12), ink],
      carts := [shop_cart [line ''P1'' 2 (Fin 10)] (Fin 20) 1]\<rparr>)) =
     Some (shop_cart [line ''P1'' 2 (Fin 10)] (Fin 20) 1) \<and>
   line ''P1'' 2 (Fin 10) \<in> set (c_items (shop_cart [line ''P1'' 2 (Fin 10)] (Fin 20) 1)) \<and>
   ci_product_id (line ''P1'' 2 (Fin 10)) = ''P1'' \<and>
   cart_products_distinct (shop_cart [line ''P1'' 2 (Fin 10)] (Fin 20) 1) \<and>
   int64 (ci_quantity (line ''P1'' 2 (Fin 10)) + 3) \<and>
   encodable (c_items (shop_cart [line ''P1'' 2 (Fin 10)] (Fin 20) 1)) \<and>
   add_to_cart (add_req ''P1'' 3) ''u1'' ''c2'' 2
     (shop\<lparr>products := [pen (Fin 12), ink],
           carts := [shop_cart [line ''P1'' 2 (Fin 10)] (Fin 20) 1]\<rparr>) =
     Inr (''Item added to cart'',
          shop\<lparr>products := [pen (Fin 12), ink],
               carts := [shop_cart [line ''P1'' 5 (Fin 10)] (Fin 50) 2]\<rparr>) \<and>
   \<not> int64 (ci_quantity (line ''P1'' 2 (Fin 10)) + 2 ^ 63) \<and>
   add_to_cart (add_req ''P1'' (2 ^ 63)) ''u1'' ''c2'' 2
     (shop\<lparr>products := [pen (Fin 12), ink],
           carts := [shop_cart [line ''P1'' 2 (Fin 10)] (Fin 20) 1]\<rparr>) = Inl OverflowError \<and>
   carts_products_distinct (shop\<lparr>products := [pen (Fin 12), ink],
      carts := [shop_cart [line ''P1'' 2 (Fin 10)] (Fin 20) 1]\<rparr>) \<and>
   carts_products_distinct (serve (shop\<lparr>products := [pen (Fin 12), ink],
      carts := [shop_cart [line ''P1'' 2 (Fin 10)] (Fin 20) 1]\<rparr>) two_adds)"
proof -
  let ?d = "shop\<lparr>products := [pen (Fin 12), ink],
      carts := [shop_cart [line ''P1'' 2 (Fin 10)] (Fin 20) 1]\<rparr>"
  let ?c = "shop_cart [line ''P1'' 2 (Fin 10)] (Fin 20) 1"
  have h1: "find_one (\<lambda>p. p_id p = ''P1'') (products ?d) = Some (pen (Fin 12))"
    by (simp add: example_defs)
  have h2: "find_one (\<lambda>c. c_user_id c = ''u1'') (carts ?d) = Some ?c"
    by (simp add: example_defs)
  have h3: "line ''P1'' 2 (Fin 10) \<in> set (c_items ?c)"
    by (simp add: example_defs)
  have h4: "ci_product_id (line ''P1'' 2 (Fin 10)) = ''P1''"
    by (simp add: example_defs)
  have h5: "cart_products_distinct ?c"
    by (simp add: cart_products_distinct_def example_defs)
  have h6: "add_to_cart (add_req ''P1'' 3) ''u1'' ''c2'' 2 ?d =
      Inr (''Item added to cart'',
           shop\<lparr>products := [pen (Fin 12), ink],
                carts := [shop_cart [line ''P1'' 5 (Fin 10)] (Fin 50) 2]\<rparr>)"
    by (simp add: example_defs float_evals)
  have h7: "carts_products_distinct ?d"
    by (simp add: carts_products_distinct_def cart_products_distinct_def example_defs)
  have h8: "int64 (ci_quantity (line ''P1'' 2 (Fin 10)) + 3)"
    "encodable (c_items ?c)" "\<not> int64 (ci_quantity (line ''P1'' 2 (Fin 10)) + 2 ^ 63)"
    by (simp_all add: example_defs)
  from add_merges_line_item [of "''P1''" ?d "pen (Fin 12)" "''u1''" ?c "line ''P1'' 2 (Fin 10)" 3
      "''c2''" 2 "''Item added to cart''"
      "shop\<lparr>products := [pen (Fin 12), ink],
            carts := [shop_cart [line ''P1'' 5 (Fin 10)] (Fin 50) 2]\<rparr>" two_adds]
    add_merges_line_item [of "''P1''" ?d "pen (Fin 12)" "''u1''" ?c "line ''P1'' 2 (Fin 10)"
      "2 ^ 63" "''c2''" 2 "''Item added to cart''" ?d two_adds]
    h1 h2 h3 h4 h5 h6 h7 h8
  show ?thesis by (simp add: add_req_def)
qed

text \<open>
  C3. In a state with at most one cart for each user, as every state reached from the
  empty database is, a successful \<open>create_order\<close> leaves the user without a cart, and
  the next \<open>get_cart\<close> creates and returns a new cart with no items and total 0.
\<close>

theorem checkout_clears_cart:
  "(one_cart_per_user d \<longrightarrow> create_order shipping_address uid new_id now d = Inr (ord, d') \<longrightarrow>
      find_one (\<lambda>c. c_user_id c = uid) (carts d') = None \<and>
      (\<exists>c d''. get_cart uid new_id' now' d' = Inr (c, d'') \<and> c_items c = [] \<and> c_total c = Fin 0 \<and>
         c_id c = new_id' \<and> find_one (\<lambda>c. c_user_id c = uid) (carts d'') = Some c)) \<and>
   (create_order shipping_address uid new_id now (serve empty_db rs) = Inr (ord, d') \<longrightarrow>
      find_one (\<lambda>c. c_user_id c = uid) (carts d') = None \<and>
      (\<exists>c d''. get_cart uid new_id' now' d' = Inr (c, d'') \<and> c_items c = [] \<and> c_total c = Fin 0 \<and>
         c_id c = new_id' \<and> find_one (\<lambda>c. c_user_id c = uid) (carts d'') = Some c))"
  using checkout_clears_cart_aux [of d shipping_address uid new_id now ord d' new_id' now']
    checkout_clears_cart_aux [OF one_cart_per_user_serve [OF one_cart_per_user_empty_db],
      of shipping_address uid new_id now rs ord d' new_id' now']
  by blast

theorem checkout_clears_cart_witness:
  "one_cart_per_user (serve empty_db first_requests) \<and>
   create_order ''123 Main St'' ''u1'' ''o1'' 3 (serve empty_db first_requests) =
     Inr (shop_order [oline ''P1'' ''Pen'' 2 (Fin 10)] (Fin 20) ''pending'',
          \<lparr>products = [pen (Fin 10)], carts = [],
           orders = [shop_order [oline ''P1'' ''Pen'' 2 (Fin 10)] (Fin 20) ''pending''], payments = []\<rparr>) \<and>
   get_cart ''u1'' ''c9'' 4
     \<lparr>products = [pen (Fin 10)], carts = [],
      orders = [shop_order [oline ''P1'' ''Pen'' 2 (Fin 10)] (Fin 20) ''pending''], payments = []\<rparr> =
     Inr (new_cart ''c9'' ''u1'' 4,
          \<lparr>products = [pen (Fin 10)], carts = [new_cart ''c9'' ''u1'' 4],
           orders = [shop_order [oline ''P1'' ''Pen'' 2 (Fin 10)] (Fin 20) ''pending''], payments = []\<rparr>)"
proof -
  let ?d' = "\<lparr>products = [pen (Fin 10)], carts = [],
      orders = [shop_order [oline ''P1'' ''Pen'' 2 (Fin 10)] (Fin 20) ''pending''], payments = []\<rparr>"
  have h1: "one_cart_per_user (serve empty_db first_requests)"
    by (simp add: one_cart_per_user_def example_defs float_evals)
  have h2: "create_order ''123 Main St'' ''u1'' ''o1'' 3 (serve empty_db first_requests) =
      Inr (shop_order [oline ''P1'' ''Pen'' 2 (Fin 10)] (Fin 20) ''pending'', ?d')"
    by (simp add: example_defs float_evals)
  have h3: "get_cart ''u1'' ''c9'' 4 ?d' =
      Inr (new_cart ''c9'' ''u1'' 4, ?d'\<lparr>carts := [new_cart ''c9'' ''u1'' 4]\<rparr>)"
    by (simp add: example_defs float_evals)
  from checkout_clears_cart [of "serve empty_db first_requests" "''123 Main St''" "''u1''" "''o1''" 3
      "shop_order [oline ''P1'' ''Pen'' 2 (Fin 10)] (Fin 20) ''pending''" ?d' "''c9''" 4 first_requests] h1 h2 h3
  show ?thesis by simp
qed

text \<open>
  C4. When the user has no cart, or the cart found for the user has no items,
  \<open>create_order\<close> raises the HTTP 400 exception ``Cart is empty'' (the InvalidState of
  the specification) and the database, orders and carts included, stays as it was.
\<close>

theorem checkout_rejects_empty_cart:
  "(find_one (\<lambda>c. c_user_id c = uid) (carts d) = None \<longrightarrow>
      create_order shipping_address uid new_id now d = Inl (HTTPException 400 ''Cart is empty'') \<and>
      handle d (CreateOrder shipping_address uid new_id now) = d) \<and>
   (find_one (\<lambda>c. c_user_id c = uid) (carts d) = Some cart \<longrightarrow> c_items cart = [] \<longrightarrow>
      create_order shipping_address uid new_id now d = Inl (HTTPException 400 ''Cart is empty'') \<and>
      handle d (CreateOrder shipping_address uid new_id now) = d)"
  by (simp add: create_order_None create_order_empty)

theorem checkout_rejects_empty_cart_witness:
  "find_one (\<lambda>c. c_user_id c = ''u1'') (carts shop) = None \<and>
   create_order ''123 Main St'' ''u1'' ''o1'' 3 shop = Inl (HTTPException 400 ''Cart is empty'') \<and>
   handle shop (CreateOrder ''123 Main St'' ''u1'' ''o1'' 3) = shop \<and>
   find_one (\<lambda>c. c_user_id c = ''u1'') (carts (shop\<lparr>carts := [shop_cart [] (Fin 0) 1]\<rparr>)) =
     Some (shop_cart [] (Fin 0) 1) \<and>
   c_items (shop_cart [] (Fin 0) 1) = [] \<and>
   create_order ''123 Main St'' ''u1'' ''o1'' 3 (shop\<lparr>carts := [shop_cart [] (Fin 0) 1]\<rparr>) =
     Inl (HTTPException 400 ''Cart is empty'') \<and>
   handle (shop\<lparr>carts := [shop_cart [] (Fin 0) 1]\<rparr>) (CreateOrder ''123 Main St'' ''u1'' ''o1'' 3) =
     shop\<lparr>carts := [shop_cart [] (Fin 0) 1]\<rparr>"
proof -
  have h1: "find_one (\<lambda>c. c_user_id c = ''u1'') (carts shop) = None"
    by (simp add: example_defs float_evals)
  have h2: "find_one (\<lambda>c. c_user_id c = ''u1'') (carts (shop\<lparr>carts := [shop_cart [] (Fin 0) 1]\<rparr>)) =
      Some (shop_cart [] (Fin 0) 1)"
    by (simp add: example_defs float_evals)
  have h3: "c_items (shop_cart [] (Fin 0) 1) = []"
    by (simp add: example_defs float_evals)
  from checkout_rejects_empty_cart [of "''u1''" shop "''123 Main St''" "''o1''" 3 "shop_cart [] (Fin 0) 1"]
    checkout_rejects_empty_cart [of "''u1''" "shop\<lparr>carts := [shop_cart [] (Fin 0) 1]\<rparr>"
      "''123 Main St''" "''o1''" 3 "shop_cart [] (Fin 0) 1"] h1 h2 h3
  show ?thesis by simp
qed

text \<open>
  C5. The order of a successful \<open>create_order\<close> has the stored total of the cart, and
  its items are the cart's line items whose product id is in the catalog, in the cart's
  order, each with the cart's quantity and price and the name of the product found for
  it; line items whose product is gone are left out. The order is appended to the orders.
\<close>

theorem order_copies_cart:
  "create_order shipping_address uid new_id now d = Inr (ord, d') \<longrightarrow>
     (\<exists>cart. find_one (\<lambda>c. c_user_id c = uid) (carts d) = Some cart \<and>
        o_total ord = c_total cart \<and>
        map (\<lambda>oi. (oi_product_id oi, oi_quantity oi, oi_price oi)) (o_items ord) =
          map (\<lambda>ci. (ci_product_id ci, ci_quantity ci, ci_price ci))
            (filter (\<lambda>ci. ci_product_id ci \<in> p_id ` set (products d)) (c_items cart)) \<and>
        (\<forall>oi\<in>set (o_items ord).
           \<exists>p. find_one (\<lambda>p. p_id p = oi_product_id oi) (products d) = Some p \<and>
               oi_product_name oi = p_name p) \<and>
        orders d' = orders d @ [ord])"
proof
  assume "create_order shipping_address uid new_id now d = Inr (ord, d')"
  from create_order_InrD [OF this] obtain cart where
    c: "find_one (\<lambda>c. c_user_id c = uid) (carts d) = Some cart"
    and o: "ord = order_of shipping_address uid new_id now (products d) cart"
    and d': "d' = d\<lparr>orders := orders d @ [ord],
                   carts := delete_one (\<lambda>c. c_user_id c = uid) (carts d)\<rparr>"
    by blast
  have "o_total ord = c_total cart"
    by (simp add: o order_of_def)
  moreover have "o_items ord = order_items_of (products d) (c_items cart)"
    by (simp add: o order_of_def)
  moreover have "orders d' = orders d @ [ord]"
    by (simp add: d')
  ultimately show "\<exists>cart. find_one (\<lambda>c. c_user_id c = uid) (carts d) = Some cart \<and>
        o_total ord = c_total cart \<and>
        map (\<lambda>oi. (oi_product_id oi, oi_quantity oi, oi_price oi)) (o_items ord) =
          map (\<lambda>ci. (ci_product_id ci, ci_quantity ci, ci_price ci))
            (filter (\<lambda>ci. ci_product_id ci \<in> p_id ` set (products d)) (c_items cart)) \<and>
        (\<forall>oi\<in>set (o_items ord).
           \<exists>p. find_one (\<lambda>p. p_id p = oi_product_id oi) (products d) = Some p \<and>
               oi_product_name oi = p_name p) \<and>
        orders d' = orders d @ [ord]"
    using c order_items_of_fields [of "products d" "c_items cart"]
      order_items_of_names [of _ "products d" "c_items cart"]
    by auto
qed

theorem order_copies_cart_witness:
  "create_order ''123 Main St'' ''u1'' ''o1'' 3
     (shop\<lparr>products := [pen (Fin 10)], carts := [shop_cart [line ''P1'' 2 (Fin 10), line ''P2'' 1 (Fin 5)] (Fin 25) 2]\<rparr>) =
     Inr (shop_order [oline ''P1'' ''Pen'' 2 (Fin 10)] (Fin 25) ''pending'',
          shop\<lparr>products := [pen (Fin 10)],
               orders := [shop_order [oline ''P1'' ''Pen'' 2 (Fin 10)] (Fin 25) ''pending'']\<rparr>) \<and>
   o_total (shop_order [oline ''P1'' ''Pen'' 2 (Fin 10)] (Fin 25) ''pending'') =
     c_total (shop_cart [line ''P1'' 2 (Fin 10), line ''P2'' 1 (Fin 5)] (Fin 25) 2) \<and>
   map (\<lambda>oi. float_mul_int (oi_price oi) (oi_quantity oi))
     (o_items (shop_order [oline ''P1'' ''Pen'' 2 (Fin 10)] (Fin 25) ''pending'')) =
     [Inr (Fin 20)]"
proof -
  let ?d = "shop\<lparr>products := [pen (Fin 10)],
      carts := [shop_cart [line ''P1'' 2 (Fin 10), line ''P2'' 1 (Fin 5)] (Fin 25) 2]\<rparr>"
  have h1: "create_order ''123 Main St'' ''u1'' ''o1'' 3 ?d =
      Inr (shop_order [oline ''P1'' ''Pen'' 2 (Fin 10)] (Fin 25) ''pending'',
           shop\<lparr>products := [pen (Fin 10)],
                orders := [shop_order [oline ''P1'' ''Pen'' 2 (Fin 10)] (Fin 25) ''pending'']\<rparr>)"
    by (simp add: example_defs float_evals)
  have h2: "find_one (\<lambda>c. c_user_id c = ''u1'') (carts ?d) =
      Some (shop_cart [line ''P1'' 2 (Fin 10), line ''P2'' 1 (Fin 5)] (Fin 25) 2)"
    by (simp add: example_defs float_evals)
  have h3: "map (\<lambda>oi. float_mul_int (oi_price oi) (oi_quantity oi))
      (o_items (shop_order [oline ''P1'' ''Pen'' 2 (Fin 10)] (Fin 25) ''pending'')) =
      [Inr (Fin 20)]"
    by (simp add: example_defs float_evals)
  from order_copies_cart [of "''123 Main St''" "''u1''" "''o1''" 3 ?d
      "shop_order [oline ''P1'' ''Pen'' 2 (Fin 10)] (Fin 25) ''pending''"
      "shop\<lparr>products := [pen (Fin 10)],
            orders := [shop_order [oline ''P1'' ''Pen'' 2 (Fin 10)] (Fin 25) ''pending'']\<rparr>"] h1 h2 h3
  show ?thesis by simp
qed

text \<open>
  C10. When the user's cart has line items but none of their products is in the catalog,
  \<open>create_order\<close> succeeds: the order has no items, the cart's stored total and status
  pending, it is appended to the orders, and the user's cart is deleted (with one cart
  for each user, no cart is left for the user).
\<close>

theorem order_of_deleted_products:
  "find_one (\<lambda>c. c_user_id c = uid) (carts d) = Some cart \<longrightarrow> c_items cart \<noteq> [] \<longrightarrow>
   (\<forall>ci\<in>set (c_items cart). ci_product_id ci \<notin> p_id ` set (products d)) \<longrightarrow>
     (\<exists>ord d'. create_order shipping_address uid new_id now d = Inr (ord, d') \<and>
        o_items ord = [] \<and> o_total ord = c_total cart \<and> o_status ord = ''pending'' \<and>
        o_user_id ord = uid \<and> orders d' = orders d @ [ord] \<and>
        carts d' = delete_one (\<lambda>c. c_user_id c = uid) (carts d) \<and>
        (one_cart_per_user d \<longrightarrow> find_one (\<lambda>c. c_user_id c = uid) (carts d') = None))"
proof (intro impI)
  assume c: "find_one (\<lambda>c. c_user_id c = uid) (carts d) = Some cart"
    and ne: "c_items cart \<noteq> []"
    and del: "\<forall>ci\<in>set (c_items cart). ci_product_id ci \<notin> p_id ` set (products d)"
  let ?ord = "order_of shipping_address uid new_id now (products d) cart"
  let ?d' = "d\<lparr>orders := orders d @ [?ord],
               carts := delete_one (\<lambda>c. c_user_id c = uid) (carts d)\<rparr>"
  have "create_order shipping_address uid new_id now d = Inr (?ord, ?d')"
    by (rule create_order_Some [OF c ne])
  moreover have "o_items ?ord = []"
    using order_items_of_deleted [OF del] by (simp add: order_of_def)
  moreover have "o_total ?ord = c_total cart \<and> o_status ?ord = ''pending'' \<and> o_user_id ?ord = uid"
    by (simp add: order_of_def)
  moreover have "one_cart_per_user d \<longrightarrow> find_one (\<lambda>c. c_user_id c = uid) (carts ?d') = None"
    by (simp add: one_cart_per_user_def find_one_delete_one)
  ultimately show "\<exists>ord d'. create_order shipping_address uid new_id now d = Inr (ord, d') \<and>
        o_items ord = [] \<and> o_total ord = c_total cart \<and> o_status ord = ''pending'' \<and>
        o_user_id ord = uid \<and> orders d' = orders d @ [ord] \<and>
        carts d' = delete_one (\<lambda>c. c_user_id c = uid) (carts d) \<and>
        (one_cart_per_user d \<longrightarrow> find_one (\<lambda>c. c_user_id c = uid) (carts d') = None)"
    by (intro exI [of _ ?ord] exI [of _ ?d']) simp
qed

theorem order_of_deleted_products_witness:
  "find_one (\<lambda>c. c_user_id c = ''u1'')
     (carts (shop\<lparr>products := [], carts := [shop_cart [line ''P1'' 2 (Fin 10), line ''P2'' 1 (Fin 5)] (Fin 25) 2]\<rparr>)) =
     Some (shop_cart [line ''P1'' 2 (Fin 10), line ''P2'' 1 (Fin 5)] (Fin 25) 2) \<and>
   c_items (shop_cart [line ''P1'' 2 (Fin 10), line ''P2'' 1 (Fin 5)] (Fin 25) 2) \<noteq> [] \<and>
   one_cart_per_user
     (shop\<lparr>products := [], carts := [shop_cart [line ''P1'' 2 (Fin 10), line ''P2'' 1 (Fin 5)] (Fin 25) 2]\<rparr>) \<and>
   create_order ''123 Main St'' ''u1'' ''o1'' 3
     (shop\<lparr>products := [], carts := [shop_cart [line ''P1'' 2 (Fin 10), line ''P2'' 1 (Fin 5)] (Fin 25) 2]\<rparr>) =
     Inr (shop_order [] (Fin 25) ''pending'',
          shop\<lparr>products := [], orders := [shop_order [] (Fin 25) ''pending'']\<rparr>)"
proof -
  let ?c = "shop_cart [line ''P1'' 2 (Fin 10), line ''P2'' 1 (Fin 5)] (Fin 25) 2"
  let ?d = "shop\<lparr>products := [], carts := [?c]\<rparr>"
  have h1: "find_one (\<lambda>c. c_user_id c = ''u1'') (carts ?d) = Some ?c"
    by (simp add: example_defs float_evals)
  have h2: "c_items ?c \<noteq> []"
    by (simp add: example_defs float_evals)
  have h3: "\<forall>ci\<in>set (c_items ?c). ci_product_id ci \<notin> p_id ` set (products ?d)"
    by (simp add: example_defs float_evals)
  have h4: "one_cart_per_user ?d"
    by (simp add: one_cart_per_user_def example_defs float_evals)
  have h5: "create_order ''123 Main St'' ''u1'' ''o1'' 3 ?d =
      Inr (shop_order [] (Fin 25) ''pending'', shop\<lparr>products := [], orders := [shop_order [] (Fin 25) ''pending'']\<rparr>)"
    by (simp add: example_defs float_evals)
  from order_of_deleted_products [of "''u1''" ?d ?c "''123 Main St''" "''o1''" 3] h1 h2 h3 h4 h5
  show ?thesis by simp
qed

text \<open>
  C6, as stated, fails: \<open>add_to_cart\<close> makes no test of the quantity against 1. With
  quantity 0, and with quantity -1, the request succeeds and stores a cart with a line
  item of that quantity.
\<close>

theorem add_accepts_zero_and_negative:
  "add_to_cart (add_req ''P1'' 0) ''u1'' ''c1'' 1 shop =
     Inr (''Item added to cart'', shop\<lparr>carts := [shop_cart [line ''P1'' 0 (Fin 10)] (Fin 0) 1]\<rparr>) \<and>
   handle shop (AddToCart (add_req ''P1'' 0) ''u1'' ''c1'' 1) \<noteq> shop \<and>
   add_to_cart (add_req ''P1'' (- 1)) ''u1'' ''c1'' 1 shop =
     Inr (''Item added to cart'',
          shop\<lparr>carts := [shop_cart [line ''P1'' (- 1) (Fin 10)] (Fin (- 10)) 1]\<rparr>) \<and>
   handle shop (AddToCart (add_req ''P1'' (- 1)) ''u1'' ''c1'' 1) \<noteq> shop"
proof -
  have a: "add_to_cart (add_req ''P1'' 0) ''u1'' ''c1'' 1 shop =
      Inr (''Item added to cart'', shop\<lparr>carts := [shop_cart [line ''P1'' 0 (Fin 10)] (Fin 0) 1]\<rparr>)"
    by (simp add: example_defs float_evals)
  have b: "add_to_cart (add_req ''P1'' (- 1)) ''u1'' ''c1'' 1 shop =
      Inr (''Item added to cart'',
           shop\<lparr>carts := [shop_cart [line ''P1'' (- 1) (Fin 10)] (Fin (- 10)) 1]\<rparr>)"
    by (simp add: example_defs float_evals)
  have c: "carts (shop\<lparr>carts := [shop_cart [line ''P1'' 0 (Fin 10)] (Fin 0) 1]\<rparr>) \<noteq> carts shop"
    by (simp add: shop_def)
  have d: "carts (shop\<lparr>carts := [shop_cart [line ''P1'' (- 1) (Fin 10)] (Fin (- 10)) 1]\<rparr>) \<noteq>
      carts shop"
    by (simp add: shop_def)
  from c have c': "shop\<lparr>carts := [shop_cart [line ''P1'' 0 (Fin 10)] (Fin 0) 1]\<rparr> \<noteq> shop"
    by (rule contrapos_nn) simp
  from d have d': "shop\<lparr>carts := [shop_cart [line ''P1'' (- 1) (Fin 10)] (Fin (- 10)) 1]\<rparr> \<noteq> shop"
    by (rule contrapos_nn) simp
  show ?thesis
    using a b c' d' by simp
qed

text \<open>
  C6, amended. \<open>add_to_cart\<close> requires that the product id is in the catalog: if it is
  not, the request raises the HTTP 404 exception ``Product not found'' and the database
  is unchanged. It does not require a quantity of 1 or more: for a product of the
  catalog, a quantity in the signed 64-bit range, 0 and the negative ones included, is
  accepted for a user without a cart and for a user whose (encodable) cart has no line
  item for the product, and the cart that is stored has a line item with that quantity
  and the catalog's price.
\<close>

theorem add_requires_product:
  "(find_one (\<lambda>p. p_id p = pid) (products d) = None \<longrightarrow>
      add_to_cart \<lparr>req_product_id = pid, req_quantity = qty\<rparr> uid new_id now d =
        Inl (HTTPException 404 ''Product not found'') \<and>
      handle d (AddToCart \<lparr>req_product_id = pid, req_quantity = qty\<rparr> uid new_id now) = d) \<and>
   (find_one (\<lambda>p. p_id p = pid) (products d) = Some product \<longrightarrow>
    find_one (\<lambda>c. c_user_id c = uid) (carts d) = None \<longrightarrow> int64 qty \<longrightarrow>
      (\<exists>tot. add_to_cart \<lparr>req_product_id = pid, req_quantity = qty\<rparr> uid new_id now d =
         Inr (''Item added to cart'',
              d\<lparr>carts := carts d @
                 [\<lparr>c_id = new_id, c_user_id = uid,
                   c_items = [\<lparr>ci_product_id = pid, ci_quantity = qty,
                               ci_price = p_price product\<rparr>],
                   c_total = tot, c_updated_at = now\<rparr>]\<rparr>))) \<and>
   (find_one (\<lambda>p. p_id p = pid) (products d) = Some product \<longrightarrow>
    find_one (\<lambda>c. c_user_id c = uid) (carts d) = Some cart \<longrightarrow>
    pid \<notin> ci_product_id ` set (c_items cart) \<longrightarrow>
      (int64 qty \<longrightarrow> encodable (c_items cart) \<longrightarrow>
         (\<exists>d''. add_to_cart \<lparr>req_product_id = pid, req_quantity = qty\<rparr> uid new_id now d =
                  Inr (''Item added to cart'', d''))) \<and>
      (add_to_cart \<lparr>req_product_id = pid, req_quantity = qty\<rparr> uid new_id now d = Inr (msg, d') \<longrightarrow>
         (\<exists>cart'. find_one (\<lambda>c. c_user_id c = uid) (carts d') = Some cart' \<and>
            c_items cart' = c_items cart @
              [\<lparr>ci_product_id = pid, ci_quantity = qty, ci_price = p_price product\<rparr>])))"
proof (intro conjI impI)
  assume "find_one (\<lambda>p. p_id p = pid) (products d) = None"
  then show n: "add_to_cart \<lparr>req_product_id = pid, req_quantity = qty\<rparr> uid new_id now d =
      Inl (HTTPException 404 ''Product not found'')"
    by (simp add: add_to_cart_None)
  show "handle d (AddToCart \<lparr>req_product_id = pid, req_quantity = qty\<rparr> uid new_id now) = d"
    by (simp add: n)
next
  assume "find_one (\<lambda>p. p_id p = pid) (products d) = Some product"
    and "find_one (\<lambda>c. c_user_id c = uid) (carts d) = None" and "int64 qty"
  then show "\<exists>tot. add_to_cart \<lparr>req_product_id = pid, req_quantity = qty\<rparr> uid new_id now d =
         Inr (''Item added to cart'',
              d\<lparr>carts := carts d @
                 [\<lparr>c_id = new_id, c_user_id = uid,
                   c_items = [\<lparr>ci_product_id = pid, ci_quantity = qty,
                               ci_price = p_price product\<rparr>],
                   c_total = tot, c_updated_at = now\<rparr>]\<rparr>)"
    by (rule add_to_cart_no_cart)
next
  assume a: "find_one (\<lambda>p. p_id p = pid) (products d) = Some product"
    "find_one (\<lambda>c. c_user_id c = uid) (carts d) = Some cart"
    "pid \<notin> ci_product_id ` set (c_items cart)"
  show "\<exists>d''. add_to_cart \<lparr>req_product_id = pid, req_quantity = qty\<rparr> uid new_id now d =
                  Inr (''Item added to cart'', d'')"
    if "int64 qty" "encodable (c_items cart)"
    using a that by (rule add_to_cart_absent(1))
  show "\<exists>cart'. find_one (\<lambda>c. c_user_id c = uid) (carts d') = Some cart' \<and>
            c_items cart' = c_items cart @
              [\<lparr>ci_product_id = pid, ci_quantity = qty, ci_price = p_price product\<rparr>]"
    if "add_to_cart \<lparr>req_product_id = pid, req_quantity = qty\<rparr> uid new_id now d = Inr (msg, d')"
    using a that by (rule add_to_cart_absent(2))
qed

theorem add_requires_product_witness:
  "find_one (\<lambda>p. p_id p = ''P9'') (products shop) = None \<and>
   add_to_cart (add_req ''P9'' 1) ''u1'' ''c1'' 1 shop = Inl (HTTPException 404 ''Product not found'') \<and>
   handle shop (AddToCart (add_req ''P9'' 1) ''u1'' ''c1'' 1) = shop \<and>
   find_one (\<lambda>p. p_id p = ''P1'') (products shop) = Some (pen (Fin 10)) \<and>
   find_one (\<lambda>c. c_user_id c = ''u1'') (carts shop) = None \<and> int64 0 \<and>
   add_to_cart (add_req ''P1'' 0) ''u1'' ''c1'' 1 shop =
     Inr (''Item added to cart'', shop\<lparr>carts := [shop_cart [line ''P1'' 0 (Fin 10)] (Fin 0) 1]\<rparr>) \<and>
   find_one (\<lambda>c. c_user_id c = ''u1'')
     (carts (shop\<lparr>carts := [shop_cart [line ''P1'' 2 (Fin 10)] (Fin 20) 1]\<rparr>)) =
     Some (shop_cart [line ''P1'' 2 (Fin 10)] (Fin 20) 1) \<and>
   ''P2'' \<notin> ci_product_id ` set (c_items (shop_cart [line ''P1'' 2 (Fin 10)] (Fin 20) 1)) \<and>
   int64 (- 1) \<and> encodable (c_items (shop_cart [line ''P1'' 2 (Fin 10)] (Fin 20) 1)) \<and>
   add_to_cart (add_req ''P2'' (- 1)) ''u1'' ''c2'' 2
     (shop\<lparr>carts := [shop_cart [line ''P1'' 2 (Fin 10)] (Fin 20) 1]\<rparr>) =
     Inr (''Item added to cart'',
          shop\<lparr>carts := [shop_cart [line ''P1'' 2 (Fin 10), line ''P2'' (- 1) (Fin 5)] (Fin 15) 2]\<rparr>)"
proof -
  let ?c = "shop_cart [line ''P1'' 2 (Fin 10)] (Fin 20) 1"
  let ?d = "shop\<lparr>carts := [?c]\<rparr>"
  have h1: "find_one (\<lambda>p. p_id p = ''P9'') (products shop) = None"
    by (simp add: example_defs)
  have h2: "find_one (\<lambda>p. p_id p = ''P1'') (products shop) = Some (pen (Fin 10))"
    "find_one (\<lambda>c. c_user_id c = ''u1'') (carts shop) = None" "int64 0"
    by (simp_all add: example_defs)
  have h3: "add_to_cart (add_req ''P1'' 0) ''u1'' ''c1'' 1 shop =
      Inr (''Item added to cart'', shop\<lparr>carts := [shop_cart [line ''P1'' 0 (Fin 10)] (Fin 0) 1]\<rparr>)"
    by (simp add: example_defs float_evals)
  have h4: "find_one (\<lambda>p. p_id p = ''P2'') (products ?d) = Some ink"
    "find_one (\<lambda>c. c_user_id c = ''u1'') (carts ?d) = Some ?c"
    "''P2'' \<notin> ci_product_id ` set (c_items ?c)" "int64 (- 1)" "encodable (c_items ?c)"
    by (simp_all add: example_defs)
  have h5: "add_to_cart (add_req ''P2'' (- 1)) ''u1'' ''c2'' 2 ?d =
      Inr (''Item added to cart'',
           shop\<lparr>carts := [shop_cart [line ''P1'' 2 (Fin 10), line ''P2'' (- 1) (Fin 5)] (Fin 15) 2]\<rparr>)"
    by (simp add: example_defs float_evals)
  from add_requires_product [of "''P9''" shop 1 "''u1''" "''c1''" 1 "pen (Fin 10)" ?c
      "''Item added to cart''" shop]
    add_requires_product [of "''P1''" shop 0 "''u1''" "''c1''" 1 "pen (Fin 10)" ?c
      "''Item added to cart''" shop]
    add_requires_product [of "''P2''" ?d "- 1" "''u1''" "''c2''" 2 ink ?c
      "''Item added to cart''"
      "shop\<lparr>carts := [shop_cart [line ''P1'' 2 (Fin 10), line ''P2'' (- 1) (Fin 5)] (Fin 15) 2]\<rparr>"]
    h1 h2 h3 h4 h5
  show ?thesis by (simp add: add_req_def)
qed

text \<open>
  C7. When the user has a cart whose stored total is the sum of its items (as every
  cart of a state reached from the empty database is) and the product id is in none of
  its line items, \<open>remove_from_cart\<close> succeeds and writes the cart back with the same
  items and the same total: only the time stamp changes. When the user has no cart it
  raises the HTTP 404 exception ``Cart not found'' and changes nothing.
\<close>

theorem remove_absent_is_noop:
  "(find_one (\<lambda>c. c_user_id c = uid) (carts d) = Some cart \<longrightarrow>
    pid \<notin> ci_product_id ` set (c_items cart) \<longrightarrow> cart_total_ok cart \<longrightarrow>
      (\<exists>d' cart'. remove_from_cart pid uid now d = Inr (''Item removed from cart'', d') \<and>
         d' = d\<lparr>carts := replace_one (\<lambda>c. c_user_id c = uid) cart' False (carts d)\<rparr> \<and>
         find_one (\<lambda>c. c_user_id c = uid) (carts d') = Some cart' \<and>
         cart' = cart\<lparr>c_updated_at := now\<rparr> \<and>
         c_items cart' = c_items cart \<and> c_total cart' = c_total cart)) \<and>
   (find_one (\<lambda>c. c_user_id c = uid) (carts (serve empty_db rs)) = Some cart \<longrightarrow>
    pid \<notin> ci_product_id ` set (c_items cart) \<longrightarrow>
      (\<exists>d' cart'. remove_from_cart pid uid now (serve empty_db rs) =
           Inr (''Item removed from cart'', d') \<and>
         find_one (\<lambda>c. c_user_id c = uid) (carts d') = Some cart' \<and>
         c_items cart' = c_items cart \<and> c_total cart' = c_total cart)) \<and>
   (find_one (\<lambda>c. c_user_id c = uid) (carts d) = None \<longrightarrow>
      remove_from_cart pid uid now d = Inl (HTTPException 404 ''Cart not found'') \<and>
      handle d (RemoveFromCart pid uid now) = d)"
proof (intro conjI impI)
  assume "find_one (\<lambda>c. c_user_id c = uid) (carts d) = Some cart"
    and "pid \<notin> ci_product_id ` set (c_items cart)" and "cart_total_ok cart"
  from remove_absent_aux [OF this, of now]
  show "\<exists>d' cart'. remove_from_cart pid uid now d = Inr (''Item removed from cart'', d') \<and>
         d' = d\<lparr>carts := replace_one (\<lambda>c. c_user_id c = uid) cart' False (carts d)\<rparr> \<and>
         find_one (\<lambda>c. c_user_id c = uid) (carts d') = Some cart' \<and>
         cart' = cart\<lparr>c_updated_at := now\<rparr> \<and>
         c_items cart' = c_items cart \<and> c_total cart' = c_total cart"
    by simp
next
  assume c: "find_one (\<lambda>c. c_user_id c = uid) (carts (serve empty_db rs)) = Some cart"
    and a: "pid \<notin> ci_product_id ` set (c_items cart)"
  have "list_all cart_total_ok (carts (serve empty_db rs))"
    using carts_total_ok_serve [OF carts_total_ok_empty_db, of rs] by (simp add: carts_total_ok_def)
  with c have t: "cart_total_ok cart" by (rule find_one_list_all)
  from remove_absent_aux [OF c a t, of now]
  show "\<exists>d' cart'. remove_from_cart pid uid now (serve empty_db rs) =
           Inr (''Item removed from cart'', d') \<and>
         find_one (\<lambda>c. c_user_id c = uid) (carts d') = Some cart' \<and>
         c_items cart' = c_items cart \<and> c_total cart' = c_total cart"
    by simp
next
  assume n: "find_one (\<lambda>c. c_user_id c = uid) (carts d) = None"
  then show "remove_from_cart pid uid now d = Inl (HTTPException 404 ''Cart not found'')"
    by (rule remove_from_cart_None)
  then show "handle d (RemoveFromCart pid uid now) = d"
    by simp
qed

theorem remove_absent_is_noop_witness:
  "find_one (\<lambda>c. c_user_id c = ''u1'') (carts (serve empty_db first_requests)) =
     Some (shop_cart [line ''P1'' 2 (Fin 10)] (Fin 20) 1) \<and>
   ''P2'' \<notin> ci_product_id ` set (c_items (shop_cart [line ''P1'' 2 (Fin 10)] (Fin 20) 1)) \<and>
   cart_total_ok (shop_cart [line ''P1'' 2 (Fin 10)] (Fin 20) 1) \<and>
   remove_from_cart ''P2'' ''u1'' 7 (serve empty_db first_requests) =
     Inr (''Item removed from cart'',
          \<lparr>products = [pen (Fin 10)], carts = [shop_cart [line ''P1'' 2 (Fin 10)] (Fin 20) 7], orders = [],
           payments = []\<rparr>) \<and>
   find_one (\<lambda>c. c_user_id c = ''u2'') (carts (serve empty_db first_requests)) = None \<and>
   remove_from_cart ''P2'' ''u2'' 7 (serve empty_db first_requests) =
     Inl (HTTPException 404 ''Cart not found'')"
proof -
  let ?c = "shop_cart [line ''P1'' 2 (Fin 10)] (Fin 20) 1"
  have h1: "find_one (\<lambda>c. c_user_id c = ''u1'') (carts (serve empty_db first_requests)) = Some ?c"
    by (simp add: example_defs float_evals)
  have h2: "''P2'' \<notin> ci_product_id ` set (c_items ?c)"
    by (simp add: example_defs float_evals)
  have h3: "cart_total_ok ?c"
    by (simp add: cart_total_ok_def example_defs float_evals)
  have h4: "remove_from_cart ''P2'' ''u1'' 7 (serve empty_db first_requests) =
      Inr (''Item removed from cart'',
           \<lparr>products = [pen (Fin 10)], carts = [shop_cart [line ''P1'' 2 (Fin 10)] (Fin 20) 7], orders = [],
            payments = []\<rparr>)"
    by (simp add: example_defs float_evals)
  have h5: "find_one (\<lambda>c. c_user_id c = ''u2'') (carts (serve empty_db first_requests)) = None"
    by (simp add: example_defs float_evals)
  from remove_absent_is_noop [of "''u1''" "serve empty_db first_requests" ?c "''P2''" 7 first_requests]
    remove_absent_is_noop [of "''u2''" "serve empty_db first_requests" ?c "''P2''" 7 first_requests]
    h1 h2 h3 h4 h5
  show ?thesis by simp
qed

text \<open>
  C8, as stated, fails in its last part: \<open>process_payment\<close> does not look at the status
  of the order. After the requests of the specification's example (two adds, the order,
  the payment) the order is paid, and a second \<open>process_payment\<close> for it succeeds and
  inserts a second completed payment.
\<close>

theorem second_payment_is_accepted:
  "serve shop (two_adds @ [CreateOrder ''123 Main St'' ''u1'' ''o1'' 3,
                           ProcessPayment ''o1'' ''u1'' ''pay1'' 4]) = paid_shop \<and>
   map o_status (orders paid_shop) = [''paid''] \<and>
   process_payment ''o1'' ''u1'' ''pay2'' 5 paid_shop =
     Inr (shop_payment ''pay2'' 5,
          paid_shop\<lparr>payments := [shop_payment ''pay1'' 4, shop_payment ''pay2'' 5]\<rparr>)"
  by (simp add: example_defs float_evals)

text \<open>
  C8, amended. In every state reached by a sequence of requests the status of every
  order is pending or paid. A request leaves each existing order as it is, or is a
  \<open>ProcessPayment\<close> and sets its status to paid; so an order that is paid stays paid.
  \<open>process_payment\<close> has no guard on the status: whenever the order is found for the user
  it succeeds, whether the order is pending or paid already, appends a completed payment
  of the order's total and sets the status to paid.
\<close>

theorem order_status_transitions:
  "(orders_status_ok d \<longrightarrow> orders_status_ok (serve d rs)) \<and>
   orders_status_ok (serve empty_db rs) \<and>
   (i < length (orders d) \<longrightarrow>
      i < length (orders (handle d r)) \<and>
      (orders (handle d r) ! i = orders d ! i \<or>
       (\<exists>order_id uid new_id now. r = ProcessPayment order_id uid new_id now) \<and>
       orders (handle d r) ! i = (orders d ! i)\<lparr>o_status := ''paid''\<rparr>)) \<and>
   (i < length (orders d) \<longrightarrow> o_status (orders d ! i) = ''paid'' \<longrightarrow>
      i < length (orders (serve d rs)) \<and> o_status (orders (serve d rs) ! i) = ''paid'') \<and>
   (find_one (\<lambda>ord. o_id ord = order_id \<and> o_user_id ord = uid) (orders d) = Some ord \<longrightarrow>
      process_payment order_id uid new_id now d =
        Inr (payment_of order_id new_id now ord,
             d\<lparr>payments := payments d @ [payment_of order_id new_id now ord],
               orders := update_one (\<lambda>ord. o_id ord = order_id)
                           (\<lambda>ord. ord\<lparr>o_status := ''paid''\<rparr>) (orders d)\<rparr>) \<and>
      pay_status (payment_of order_id new_id now ord) = ''completed'' \<and>
      pay_amount (payment_of order_id new_id now ord) = o_total ord)"
proof (intro conjI impI)
  assume "orders_status_ok d"
  then show "orders_status_ok (serve d rs)" by (rule orders_status_ok_serve)
next
  show "orders_status_ok (serve empty_db rs)"
    using orders_status_ok_empty_db by (rule orders_status_ok_serve)
next
  assume i: "i < length (orders d)"
  from order_handle_nth [OF i, of r] show "i < length (orders (handle d r))" by simp
  from order_handle_nth [OF i, of r]
  show "orders (handle d r) ! i = orders d ! i \<or>
       (\<exists>order_id uid new_id now. r = ProcessPayment order_id uid new_id now) \<and>
       orders (handle d r) ! i = (orders d ! i)\<lparr>o_status := ''paid''\<rparr>"
    by (simp add: mark_paid_def)
next
  assume i: "i < length (orders d)" and p: "o_status (orders d ! i) = ''paid''"
  from paid_stays_paid_serve [OF i p, of rs]
  show "i < length (orders (serve d rs))" and "o_status (orders (serve d rs) ! i) = ''paid''"
    by simp_all
next
  assume s: "find_one (\<lambda>ord. o_id ord = order_id \<and> o_user_id ord = uid) (orders d) = Some ord"
  show "process_payment order_id uid new_id now d =
        Inr (payment_of order_id new_id now ord,
             d\<lparr>payments := payments d @ [payment_of order_id new_id now ord],
               orders := update_one (\<lambda>ord. o_id ord = order_id)
                           (\<lambda>ord. ord\<lparr>o_status := ''paid''\<rparr>) (orders d)\<rparr>)"
    by (rule process_payment_Some [OF s])
  show "pay_status (payment_of order_id new_id now ord) = ''completed''"
    by (simp add: payment_of_def)
  show "pay_amount (payment_of order_id new_id now ord) = o_total ord"
    by (simp add: payment_of_def)
qed

theorem order_status_transitions_witness:
  "orders_status_ok paid_shop \<and>
   orders_status_ok (serve paid_shop [ProcessPayment ''o1'' ''u1'' ''pay2'' 5]) \<and>
   (0::nat) < length (orders paid_shop) \<and> o_status (orders paid_shop ! 0) = ''paid'' \<and>
   o_status (orders (serve paid_shop [ProcessPayment ''o1'' ''u1'' ''pay2'' 5]) ! 0) = ''paid'' \<and>
   find_one (\<lambda>ord. o_id ord = ''o1'' \<and> o_user_id ord = ''u1'') (orders paid_shop) =
     Some (shop_order [oline ''P1'' ''Pen'' 2 (Fin 10), oline ''P2'' ''Ink'' 1 (Fin 5)] (Fin 25) ''paid'') \<and>
   process_payment ''o1'' ''u1'' ''pay2'' 5 paid_shop =
     Inr (shop_payment ''pay2'' 5,
          paid_shop\<lparr>payments := [shop_payment ''pay1'' 4, shop_payment ''pay2'' 5]\<rparr>)"
proof -
  let ?o = "shop_order [oline ''P1'' ''Pen'' 2 (Fin 10), oline ''P2'' ''Ink'' 1 (Fin 5)] (Fin 25) ''paid''"
  have h1: "orders_status_ok paid_shop"
    by (simp add: orders_status_ok_def status_ok_def example_defs float_evals)
  have h2: "(0::nat) < length (orders paid_shop)"
    by (simp add: paid_shop_def)
  have h3: "o_status (orders paid_shop ! 0) = ''paid''"
    by (simp add: example_defs float_evals)
  have h4: "find_one (\<lambda>ord. o_id ord = ''o1'' \<and> o_user_id ord = ''u1'') (orders paid_shop) = Some ?o"
    by (simp add: example_defs float_evals)
  have h5: "process_payment ''o1'' ''u1'' ''pay2'' 5 paid_shop =
      Inr (shop_payment ''pay2'' 5,
           paid_shop\<lparr>payments := [shop_payment ''pay1'' 4, shop_payment ''pay2'' 5]\<rparr>)"
    by (simp add: example_defs float_evals)
  from order_status_transitions [of paid_shop "[ProcessPayment ''o1'' ''u1'' ''pay2'' 5]" 0
      "ProcessPayment ''o1'' ''u1'' ''pay2'' 5" "''o1''" "''u1''" ?o "''pay2''" 5] h1 h2 h3 h4 h5
  show ?thesis by simp
qed

text \<open>
  C9. With a catalog that is not empty, \<open>initialize_sample_products\<close> returns the message
  ``Products already initialized'' and leaves the database as it is. With an empty
  catalog it inserts the 8 sample products and returns ``Initialized 8 sample
  products'', after which a second call is of the first kind: running the seed twice
  gives the same database as running it once.
\<close>

theorem seed_is_idempotent:
  "(products d \<noteq> [] \<longrightarrow>
      initialize_sample_products gen now d = (''Products already initialized'', d)) \<and>
   (products d = [] \<longrightarrow>
      (\<exists>d'. initialize_sample_products gen now d = (''Initialized 8 sample products'', d') \<and>
         length (products d') = 8 \<and>
         map p_name (products d') = map pc_name sample_products \<and>
         initialize_sample_products gen' now' d' = (''Products already initialized'', d'))) \<and>
   snd (initialize_sample_products gen' now' (snd (initialize_sample_products gen now d))) =
     snd (initialize_sample_products gen now d) \<and>
   ''Products already initialized'' \<noteq> ''Initialized 8 sample products''"
proof (intro conjI impI)
  assume "products d \<noteq> []"
  then show "initialize_sample_products gen now d = (''Products already initialized'', d)"
    by (rule initialize_nonempty)
next
  assume e: "products d = []"
  let ?ps = "map (\<lambda>(i, product_data). product_of product_data (gen i) now)
      (enumerate 0 sample_products)"
  have l: "length ?ps = 8" by (simp add: length_sample_products)
  have ne: "products (d\<lparr>products := ?ps\<rparr>) \<noteq> []"
    using seeded_nonempty [of gen now] by simp
  have names: "map p_name ?ps = map pc_name sample_products"
    by (rule seeded_names)
  show "\<exists>d'. initialize_sample_products gen now d = (''Initialized 8 sample products'', d') \<and>
         length (products d') = 8 \<and>
         map p_name (products d') = map pc_name sample_products \<and>
         initialize_sample_products gen' now' d' = (''Products already initialized'', d')"
    using initialize_empty [OF e, of gen now] l names initialize_nonempty [OF ne, of gen' now']
    by simp
next
  show "snd (initialize_sample_products gen' now' (snd (initialize_sample_products gen now d))) =
     snd (initialize_sample_products gen now d)"
  proof (cases "products d = []")
    case True
    let ?ps = "map (\<lambda>(i, product_data). product_of product_data (gen i) now)
      (enumerate 0 sample_products)"
    have ne: "products (d\<lparr>products := ?ps\<rparr>) \<noteq> []"
      using seeded_nonempty [of gen now] by simp
    show ?thesis
      using initialize_empty [OF True, of gen now] initialize_nonempty [OF ne, of gen' now']
      by simp
  next
    case False
    then show ?thesis by (simp add: initialize_nonempty)
  qed
next
  show "''Products already initialized'' \<noteq> ''Initialized 8 sample products''"
    by simp
qed

theorem seed_is_idempotent_witness:
  "products shop \<noteq> [] \<and>
   initialize_sample_products (\<lambda>i. ''id'') 9 shop = (''Products already initialized'', shop) \<and>
   products empty_db = [] \<and>
   fst (initialize_sample_products (\<lambda>i. str_nat i) 9 empty_db) = ''Initialized 8 sample products'' \<and>
   length (products (snd (initialize_sample_products (\<lambda>i. str_nat i) 9 empty_db))) = 8 \<and>
   initialize_sample_products (\<lambda>i. ''id'') 10
     (snd (initialize_sample_products (\<lambda>i. str_nat i) 9 empty_db)) =
     (''Products already initialized'', snd (initialize_sample_products (\<lambda>i. str_nat i) 9 empty_db))"
proof -
  have h1: "products shop \<noteq> []" by (simp add: shop_def)
  have h2: "products empty_db = []" by (simp add: empty_db_def)
  from seed_is_idempotent [of shop "\<lambda>i. ''id''" 9 "\<lambda>i. ''id''" 10]
    seed_is_idempotent [of empty_db "\<lambda>i. str_nat i" 9 "\<lambda>i. ''id''" 10] h1 h2
  show ?thesis by auto
qed

end
